theory Spec2Isabelle
  imports
    Complex_Main
    "HOL-Library.AList"
    "HOL-Library.Multiset"
    "HOL-Library.Sublist"
    "HOL-Library.Signed_Division"
begin

chapter \<open>The Airflow receiver: retry executor, health tracker, StatsD aggregator,
  log adapter and REST fan-out\<close>

text \<open>
  The Go sources are embedded as HOL functions. Conventions used throughout:

  \<^item> Go's \<^verbatim>\<open>int\<close>, \<^verbatim>\<open>int64\<close> and \<^verbatim>\<open>time.Duration\<close> values are HOL integers. The
    counters of this program grow by one per scrape, per datagram line or per retry, so
    they cannot leave the 64-bit range in any run; the one place where a value is
    computed that may not fit (the conversion of a floating-point backoff to a
    duration) writes the range check out.
  \<^item> In the retry executor a \<^verbatim>\<open>float64\<close> is a rational and the arithmetic is exact.
    In the adapters \<^verbatim>\<open>float64\<close> is a type parameter \<open>'f\<close> and its operations (parsing,
    addition, division, comparison, conversions) are a parameter of the model, so that
    nothing is assumed about rounding, infinities or NaN.
  \<^item> \<^verbatim>\<open>time.Time\<close> is the number of nanoseconds since the zero time, so the zero
    \<^verbatim>\<open>Time\<close> is \<open>0\<close>.
  \<^item> A Go map is an association list with distinct keys, kept in insertion order;
    a \<^verbatim>\<open>range\<close> over it visits the keys in an order chosen by the runtime, which
    the model receives from its environment.
  \<^item> Every read of the outside world (the clock, the order of a map iteration, a reply
    of the monitored system) is taken from an environment of oracles indexed by the
    number of reads made so far.
\<close>

section \<open>Basic types\<close>

type_synonym float64 = rat
type_synonym Duration = int
type_synonym Time = int

definition Second :: Duration where
  "Second = 1000000000"

definition Minute :: Duration where
  "Minute = 60 * Second"

text \<open>Conversion of a \<^verbatim>\<open>float64\<close> to \<^verbatim>\<open>int64\<close>: the fraction is discarded. When the
  truncated value does not fit 64 bits Go leaves the result to the implementation;
  the parameter \<open>conv\<close> stands for what the platform yields then.\<close>

definition trunc :: "rat \<Rightarrow> int" where
  "trunc x = (if 0 \<le> x then \<lfloor>x\<rfloor> else \<lceil>x\<rceil>)"

definition int64_of_float64 :: "(rat \<Rightarrow> int) \<Rightarrow> rat \<Rightarrow> int" where
  "int64_of_float64 conv x =
     (if - (2 ^ 63) \<le> trunc x \<and> trunc x < 2 ^ 63 then trunc x else conv x)"

text \<open>The operations on \<^verbatim>\<open>float64\<close> that the adapters use, as a parameter of the model:
  the conversions \<^verbatim>\<open>float64(n)\<close> and \<^verbatim>\<open>int64(x)\<close>, addition, division, the comparison
  \<^verbatim>\<open>x < y\<close> (\<^verbatim>\<open>x > y\<close> is \<^verbatim>\<open>y < x\<close>), \<^verbatim>\<open>Duration.Seconds()\<close> and \<^verbatim>\<open>strconv.ParseFloat\<close>
  (\<open>None\<close> is an error). The literals \<open>0\<close> and \<open>1.0\<close> are \<^verbatim>\<open>float64(0)\<close> and \<^verbatim>\<open>float64(1)\<close>.\<close>

record 'f float64_ops =
  f64_of_int :: "int \<Rightarrow> 'f"
  f64_to_int64 :: "'f \<Rightarrow> int"
  f64_add :: "'f \<Rightarrow> 'f \<Rightarrow> 'f"
  f64_div :: "'f \<Rightarrow> 'f \<Rightarrow> 'f"
  f64_less :: "'f \<Rightarrow> 'f \<Rightarrow> bool"
  f64_seconds :: "Duration \<Rightarrow> 'f"
  ParseFloat :: "string \<Rightarrow> 'f option"

text \<open>Log records written through the \<^verbatim>\<open>zap\<close> logger.\<close>

datatype level = DebugLevel | InfoLevel | WarnLevel | ErrorLevel

datatype 'e field =
    zap_String string string
  | zap_Int string int
  | zap_Duration string Duration
  | zap_Error "'e option"

datatype 'e entry = Entry level string "'e field list"

text \<open>The order in which a \<^verbatim>\<open>range\<close> statement visits a Go map. The runtime's choice
  is a list of numbers; each picks the next key among those not yet visited, so every
  choice yields a permutation of the keys and every permutation is reachable.\<close>

fun pick_order :: "nat list \<Rightarrow> 'a list \<Rightarrow> 'a list" where
  "pick_order cs [] = []"
| "pick_order [] (x # xs) = x # xs"
| "pick_order (c # cs) (x # xs) =
     (let i = c mod length (x # xs)
      in (x # xs) ! i # pick_order cs (take i (x # xs) @ drop (Suc i) (x # xs)))"

definition range_entries :: "nat list \<Rightarrow> ('k \<times> 'v) list \<Rightarrow> ('k \<times> 'v) list" where
  "range_entries choice m =
     map (\<lambda>k. (k, the (map_of m k))) (pick_order choice (remdups (map fst m)))"

record env =
  now_at :: "nat \<Rightarrow> Time"
  range_at :: "nat \<Rightarrow> nat list"

section \<open>Retry executor (\<^verbatim>\<open>internal/scraper/retry.go\<close>)\<close>

record RetryConfig =
  MaxAttempts :: int
  InitialInterval :: Duration
  MaxInterval :: Duration
  Multiplier :: float64

definition DefaultRetryConfig :: RetryConfig where
  "DefaultRetryConfig =
     \<lparr>MaxAttempts = 3, InitialInterval = 1 * Second,
      MaxInterval = 10 * Second, Multiplier = 2\<rparr>"

text \<open>What a call of \<^verbatim>\<open>RetryWithBackoff\<close> does, in order: invocations of \<^verbatim>\<open>fn\<close> and
  timers armed with \<^verbatim>\<open>time.After(backoff)\<close>. The run also keeps the returned error
  (\<open>None\<close> is \<^verbatim>\<open>nil\<close>), the variables captured by the closure \<^verbatim>\<open>fn\<close> after its last
  invocation, and the log.\<close>

datatype event = Invoke | Wait Duration

record ('e, 's) retry_run =
  returned :: "'e option"
  captured :: 's
  trace :: "event list"
  logged :: "'e entry list"

definition backoff_of :: "(rat \<Rightarrow> int) \<Rightarrow> RetryConfig \<Rightarrow> int \<Rightarrow> Duration" where
  "backoff_of conv cfg attempt =
     (let backoff = int64_of_float64 conv
            (of_int (InitialInterval cfg) * Multiplier cfg ^ nat (attempt - 1))
      in if backoff > MaxInterval cfg then MaxInterval cfg else backoff)"

text \<open>The loop of \<^verbatim>\<open>RetryWithBackoff\<close>. The operation \<open>fn\<close> is a closure: it maps
  the state of its captured variables to its error and their new state. \<open>ctx k\<close> is
  \<open>Some err\<close> when the \<^verbatim>\<open>select\<close> before attempt number \<open>k\<close> (counted from 0) takes
  the \<^verbatim>\<open>ctx.Done()\<close> case, \<open>err\<close> being \<^verbatim>\<open>ctx.Err()\<close>.\<close>

function retry_loop ::
  "(rat \<Rightarrow> int) \<Rightarrow> (int \<Rightarrow> 'e option) \<Rightarrow> RetryConfig \<Rightarrow> string \<Rightarrow>
   ('s \<Rightarrow> 'e option \<times> 's) \<Rightarrow> int \<Rightarrow> 'e option \<Rightarrow> ('e, 's) retry_run \<Rightarrow> ('e, 's) retry_run"
where
  "retry_loop conv ctx cfg operation fn attempt lastErr r =
     (if attempt < MaxAttempts cfg then
        (let backoff = backoff_of conv cfg attempt;
             r1 = (if attempt > 0
                   then r\<lparr>trace := trace r @ [Wait backoff],
                          logged := logged r @
                            [Entry DebugLevel ''Retrying operation after backoff''
                               [zap_String ''operation'' operation,
                                zap_Int ''attempt'' (attempt + 1),
                                zap_Int ''max_attempts'' (MaxAttempts cfg),
                                zap_Duration ''backoff'' backoff]]\<rparr>
                   else r)
         in if attempt > 0 \<and> ctx attempt \<noteq> None then r1\<lparr>returned := ctx attempt\<rparr>
            else
              (case fn (captured r1) of
                 (None, s') \<Rightarrow>
                   r1\<lparr>returned := None, captured := s',
                      trace := trace r1 @ [Invoke],
                      logged := logged r1 @
                        (if attempt > 0
                         then [Entry InfoLevel ''Operation succeeded after retry''
                                 [zap_String ''operation'' operation,
                                  zap_Int ''attempts'' (attempt + 1)]]
                         else [])\<rparr>
               | (Some e, s') \<Rightarrow>
                   retry_loop conv ctx cfg operation fn (attempt + 1) (Some e)
                     (r1\<lparr>captured := s',
                         trace := trace r1 @ [Invoke],
                         logged := logged r1 @
                           [Entry WarnLevel ''Operation failed''
                              [zap_String ''operation'' operation,
                               zap_Int ''attempt'' (attempt + 1),
                               zap_Error (Some e)]]\<rparr>)))
      else r\<lparr>returned := lastErr,
             logged := logged r @
               [Entry ErrorLevel ''Operation failed after all retries''
                  [zap_String ''operation'' operation,
                   zap_Int ''attempts'' (MaxAttempts cfg),
                   zap_Error lastErr]]\<rparr>)"
  by pat_completeness auto
termination
  by (relation "measure (\<lambda>(conv, ctx, cfg, operation, fn, attempt, lastErr, r).
        nat (MaxAttempts cfg - attempt))") auto

definition RetryWithBackoff ::
  "(rat \<Rightarrow> int) \<Rightarrow> (int \<Rightarrow> 'e option) \<Rightarrow> RetryConfig \<Rightarrow> string \<Rightarrow>
   ('s \<Rightarrow> 'e option \<times> 's) \<Rightarrow> 's \<Rightarrow> ('e, 's) retry_run"
where
  "RetryWithBackoff conv ctx cfg operation fn s =
     retry_loop conv ctx cfg operation fn 0 None
       \<lparr>returned = None, captured = s, trace = [], logged = []\<rparr>"

definition invocations :: "('e, 's) retry_run \<Rightarrow> nat" where
  "invocations r = count_list (trace r) Invoke"

text \<open>The state of the closure's captured variables after \<open>i\<close> invocations.\<close>

definition captured_after :: "('s \<Rightarrow> 'e option \<times> 's) \<Rightarrow> nat \<Rightarrow> 's \<Rightarrow> 's" where
  "captured_after fn i s = ((\<lambda>s. snd (fn s)) ^^ i) s"

text \<open>Two steps of the loop body, named for the proofs: the wait before an attempt,
  and the bookkeeping after a failed attempt.\<close>

definition before_attempt ::
  "(rat \<Rightarrow> int) \<Rightarrow> RetryConfig \<Rightarrow> string \<Rightarrow> int \<Rightarrow> ('e, 's) retry_run \<Rightarrow> ('e, 's) retry_run"
where
  "before_attempt conv cfg operation attempt r =
     (if attempt > 0
      then r\<lparr>trace := trace r @ [Wait (backoff_of conv cfg attempt)],
             logged := logged r @
               [Entry DebugLevel ''Retrying operation after backoff''
                  [zap_String ''operation'' operation,
                   zap_Int ''attempt'' (attempt + 1),
                   zap_Int ''max_attempts'' (MaxAttempts cfg),
                   zap_Duration ''backoff'' (backoff_of conv cfg attempt)]]\<rparr>
      else r)"

definition after_failure ::
  "string \<Rightarrow> int \<Rightarrow> 'e \<Rightarrow> 's \<Rightarrow> ('e, 's) retry_run \<Rightarrow> ('e, 's) retry_run"
where
  "after_failure operation attempt e s' r1 =
     r1\<lparr>captured := s', trace := trace r1 @ [Invoke],
        logged := logged r1 @
          [Entry WarnLevel ''Operation failed''
             [zap_String ''operation'' operation,
              zap_Int ''attempt'' (attempt + 1),
              zap_Error (Some e)]]\<rparr>"

subsection \<open>The REST adapter's request (\<^verbatim>\<open>RESTAPIScraper.doRequest\<close>)\<close>

text \<open>One HTTP exchange as the closure passed to \<^verbatim>\<open>RetryWithBackoff\<close> sees it: the
  request cannot be built, the client fails, or a response arrives with a status
  code, the bytes \<^verbatim>\<open>io.ReadAll\<close> read and its error.\<close>

datatype http_exchange =
    NewRequestFails string
  | DoFails string
  | Responds int string "string option"

datatype http_error =
    RequestError string
  | ClientError string
  | AuthenticationFailed int
  | UnexpectedStatusCode int
  | ReadError string
  | ContextError string

text \<open>The closure of \<^verbatim>\<open>doRequest\<close>. Its captured state is the number of exchanges made
  so far and the variable \<^verbatim>\<open>body\<close> (\<open>None\<close> is the nil slice); \<open>net k\<close> is the \<open>k\<close>-th
  exchange with the endpoint.\<close>

definition doRequest_fn ::
  "(nat \<Rightarrow> http_exchange) \<Rightarrow> nat \<times> string option \<Rightarrow> http_error option \<times> (nat \<times> string option)"
where
  "doRequest_fn net = (\<lambda>(k, body).
     case net k of
       NewRequestFails m \<Rightarrow> (Some (RequestError m), (Suc k, body))
     | DoFails m \<Rightarrow> (Some (ClientError m), (Suc k, body))
     | Responds code bytes rerr \<Rightarrow>
         if code \<noteq> 200 then
           (if code = 401 \<or> code = 403
            then (Some (AuthenticationFailed code), (Suc k, None))
            else (Some (UnexpectedStatusCode code), (Suc k, body)))
         else (map_option ReadError rerr, (Suc k, Some bytes)))"

definition doRequest ::
  "(rat \<Rightarrow> int) \<Rightarrow> (int \<Rightarrow> http_error option) \<Rightarrow> RetryConfig \<Rightarrow>
   (nat \<Rightarrow> http_exchange) \<Rightarrow> string \<Rightarrow> (http_error, nat \<times> string option) retry_run"
where
  "doRequest conv ctx retryConfig net path =
     RetryWithBackoff conv ctx retryConfig (''GET '' @ path) (doRequest_fn net) (0, None)"

section \<open>Health tracker (\<^verbatim>\<open>ScraperHealth\<close>)\<close>

record 'e ScraperHealth =
  scraperType :: string
  totalScrapes :: int
  successfulScrapes :: int
  failedScrapes :: int
  lastScrapeDuration :: Duration
  avgScrapeDuration :: Duration
  maxScrapeDuration :: Duration
  lastError :: "'e option"
  lastErrorTime :: Time
  consecutiveErrors :: int
  lastSuccessTime :: Time
  healthy :: bool
  health_logged :: "'e entry list"

definition NewScraperHealth :: "string \<Rightarrow> 'e ScraperHealth" where
  "NewScraperHealth ty =
     \<lparr>scraperType = ty, totalScrapes = 0, successfulScrapes = 0, failedScrapes = 0,
      lastScrapeDuration = 0, avgScrapeDuration = 0, maxScrapeDuration = 0,
      lastError = None, lastErrorTime = 0, consecutiveErrors = 0,
      lastSuccessTime = 0, healthy = True, health_logged = []\<rparr>"

text \<open>\<^verbatim>\<open>RecordScrape\<close>; \<open>now\<close> is the value of the one \<^verbatim>\<open>time.Now()\<close> call of the
  branch taken. Go's integer division truncates towards zero (\<open>sdiv\<close>).\<close>

definition RecordScrape ::
  "Time \<Rightarrow> Duration \<Rightarrow> 'e option \<Rightarrow> 'e ScraperHealth \<Rightarrow> 'e ScraperHealth"
where
  "RecordScrape now duration err h =
     (let h1 = h\<lparr>totalScrapes := totalScrapes h + 1, lastScrapeDuration := duration\<rparr>
      in case err of
           Some e \<Rightarrow>
             (let h2 = h1\<lparr>failedScrapes := failedScrapes h1 + 1,
                          consecutiveErrors := consecutiveErrors h1 + 1,
                          lastError := Some e,
                          lastErrorTime := now\<rparr>
              in if consecutiveErrors h2 \<ge> 3
                 then h2\<lparr>healthy := False,
                         health_logged := health_logged h2 @
                           [Entry ErrorLevel ''Scraper marked unhealthy''
                              [zap_String ''scraper_type'' (scraperType h2),
                               zap_Int ''consecutive_errors'' (consecutiveErrors h2),
                               zap_Error (Some e)]]\<rparr>
                 else h2)
         | None \<Rightarrow>
             (let h2 = h1\<lparr>successfulScrapes := successfulScrapes h1 + 1,
                          consecutiveErrors := 0,
                          lastSuccessTime := now,
                          healthy := True\<rparr>;
                  h3 = (if avgScrapeDuration h2 = 0
                        then h2\<lparr>avgScrapeDuration := duration\<rparr>
                        else h2\<lparr>avgScrapeDuration :=
                                  (avgScrapeDuration h2 * 9 + duration) sdiv 10\<rparr>)
              in if duration > maxScrapeDuration h3
                 then h3\<lparr>maxScrapeDuration := duration\<rparr>
                 else h3))"

definition IsHealthy :: "'e ScraperHealth \<Rightarrow> bool" where
  "IsHealthy h = healthy h"

section \<open>Metrics builder (\<^verbatim>\<open>internal/scraper/metrics_builder.go\<close>)\<close>

text \<open>A metric as the builder appends it: name, unit, description, the kind of data
  (a gauge, or a monotonic cumulative sum) and its single data point: timestamp, value
  and attributes. A \<^verbatim>\<open>pcommon.Timestamp\<close> is kept as the \<^verbatim>\<open>Time\<close> it was made from. The
  attributes of a data point are listed in the order of the \<^verbatim>\<open>Put\<close> calls, which are
  all of distinct keys.\<close>

datatype attr = AttrStr string | AttrBool bool | AttrInt int

datatype 'f number = IntValue int | DoubleValue 'f

datatype metric_data = Gauge | MonotonicCumulativeSum

record 'f Metric =
  metric_name :: string
  metric_unit :: string
  metric_description :: string
  metric_data :: metric_data
  dp_timestamp :: Time
  dp_value :: "'f number"
  dp_attributes :: "(string \<times> attr) list"

record 'f MetricsBuilder =
  resource_attributes :: "(string \<times> attr) list"
  scope_name :: string
  scope_version :: string
  mb_metrics :: "'f Metric list"

definition NewMetricsBuilder :: "'f MetricsBuilder" where
  "NewMetricsBuilder =
     \<lparr>resource_attributes =
        [(''service.name'', AttrStr ''airflow''), (''airflow.component'', AttrStr ''receiver'')],
      scope_name = ''github.com/npcomplete777/airflowreceiver'',
      scope_version = ''0.0.1'',
      mb_metrics = []\<rparr>"

text \<open>\<^verbatim>\<open>mb.sm.Metrics().AppendEmpty()\<close> followed by the setters.\<close>

definition AppendMetric :: "'f Metric \<Rightarrow> 'f MetricsBuilder \<Rightarrow> 'f MetricsBuilder" where
  "AppendMetric m mb = mb\<lparr>mb_metrics := mb_metrics mb @ [m]\<rparr>"

text \<open>\<^verbatim>\<open>Emit\<close> returns the builder's own collection, not a copy: the value returned is
  a handle on \<^verbatim>\<open>mb.metrics\<close>, and what a holder of the handle sees is the builder's
  collection at the time of looking.\<close>

definition Emit :: "'f MetricsBuilder \<Rightarrow> 'f Metric list" where
  "Emit mb = mb_metrics mb"

definition RecordPoolSlotsOpen :: "int \<Rightarrow> string \<Rightarrow> Time \<Rightarrow> 'f MetricsBuilder \<Rightarrow> 'f MetricsBuilder" where
  "RecordPoolSlotsOpen value poolName ts mb =
     AppendMetric
       \<lparr>metric_name = ''airflow.pool.slots.open'',
        metric_unit = ''{slots}'',
        metric_description = ''Number of open slots in pool'',
        metric_data = Gauge,
        dp_timestamp = ts,
        dp_value = IntValue value,
        dp_attributes = [(''pool.name'', AttrStr poolName)]\<rparr> mb"

definition RecordPoolSlotsUsed :: "int \<Rightarrow> string \<Rightarrow> Time \<Rightarrow> 'f MetricsBuilder \<Rightarrow> 'f MetricsBuilder" where
  "RecordPoolSlotsUsed value poolName ts mb =
     AppendMetric
       \<lparr>metric_name = ''airflow.pool.slots.used'',
        metric_unit = ''{slots}'',
        metric_description = ''Number of used slots in pool'',
        metric_data = Gauge,
        dp_timestamp = ts,
        dp_value = IntValue value,
        dp_attributes = [(''pool.name'', AttrStr poolName)]\<rparr> mb"

definition RecordSchedulerHeartbeatAge :: "'f \<Rightarrow> Time \<Rightarrow> 'f MetricsBuilder \<Rightarrow> 'f MetricsBuilder" where
  "RecordSchedulerHeartbeatAge age ts mb =
     AppendMetric
       \<lparr>metric_name = ''airflow.scheduler.heartbeat.age'',
        metric_unit = ''s'',
        metric_description = ''Age of scheduler heartbeat in seconds'',
        metric_data = Gauge,
        dp_timestamp = ts,
        dp_value = DoubleValue age,
        dp_attributes = []\<rparr> mb"

definition RecordConnectionCount :: "int \<Rightarrow> string \<Rightarrow> Time \<Rightarrow> 'f MetricsBuilder \<Rightarrow> 'f MetricsBuilder" where
  "RecordConnectionCount cnt connType ts mb =
     AppendMetric
       \<lparr>metric_name = ''airflow.connections.count'',
        metric_unit = ''{connections}'',
        metric_description = ''Number of connections by type'',
        metric_data = Gauge,
        dp_timestamp = ts,
        dp_value = IntValue cnt,
        dp_attributes = [(''connection.type'', AttrStr connType)]\<rparr> mb"

definition RecordVariableCount :: "int \<Rightarrow> Time \<Rightarrow> 'f MetricsBuilder \<Rightarrow> 'f MetricsBuilder" where
  "RecordVariableCount cnt ts mb =
     AppendMetric
       \<lparr>metric_name = ''airflow.variables.count'',
        metric_unit = ''{variables}'',
        metric_description = ''Total number of Airflow variables'',
        metric_data = Gauge,
        dp_timestamp = ts,
        dp_value = IntValue cnt,
        dp_attributes = []\<rparr> mb"

definition RecordImportErrorCount :: "int \<Rightarrow> Time \<Rightarrow> 'f MetricsBuilder \<Rightarrow> 'f MetricsBuilder" where
  "RecordImportErrorCount cnt ts mb =
     AppendMetric
       \<lparr>metric_name = ''airflow.import_errors.count'',
        metric_unit = ''{errors}'',
        metric_description = ''Number of DAG import errors'',
        metric_data = Gauge,
        dp_timestamp = ts,
        dp_value = IntValue cnt,
        dp_attributes = []\<rparr> mb"

definition RecordDAGCount :: "int \<Rightarrow> string \<Rightarrow> Time \<Rightarrow> 'f MetricsBuilder \<Rightarrow> 'f MetricsBuilder" where
  "RecordDAGCount cnt status ts mb =
     AppendMetric
       \<lparr>metric_name = ''airflow.dags.count'',
        metric_unit = ''{dags}'',
        metric_description = ''Total number of DAGs by status'',
        metric_data = Gauge,
        dp_timestamp = ts,
        dp_value = IntValue cnt,
        dp_attributes = [(''status'', AttrStr status)]\<rparr> mb"

definition RecordTaskInstancesByState :: "int \<Rightarrow> string \<Rightarrow> string \<Rightarrow> Time \<Rightarrow> 'f MetricsBuilder \<Rightarrow> 'f MetricsBuilder" where
  "RecordTaskInstancesByState cnt dagID state ts mb =
     AppendMetric
       \<lparr>metric_name = ''airflow.task_instances.by_state'',
        metric_unit = ''{tasks}'',
        metric_description = ''Number of task instances by state'',
        metric_data = Gauge,
        dp_timestamp = ts,
        dp_value = IntValue cnt,
        dp_attributes = [(''dag.id'', AttrStr dagID),
                         (''state'', AttrStr state)]\<rparr> mb"

definition RecordDAGRunsByState :: "int \<Rightarrow> string \<Rightarrow> string \<Rightarrow> Time \<Rightarrow> 'f MetricsBuilder \<Rightarrow> 'f MetricsBuilder" where
  "RecordDAGRunsByState cnt dagID state ts mb =
     AppendMetric
       \<lparr>metric_name = ''airflow.dag_runs.by_state'',
        metric_unit = ''{runs}'',
        metric_description = ''Number of DAG runs by state'',
        metric_data = Gauge,
        dp_timestamp = ts,
        dp_value = IntValue cnt,
        dp_attributes = [(''dag.id'', AttrStr dagID),
                         (''state'', AttrStr state)]\<rparr> mb"

definition RecordPoolQueuedSlots :: "int \<Rightarrow> string \<Rightarrow> Time \<Rightarrow> 'f MetricsBuilder \<Rightarrow> 'f MetricsBuilder" where
  "RecordPoolQueuedSlots value poolName ts mb =
     AppendMetric
       \<lparr>metric_name = ''airflow.pool.slots.queued'',
        metric_unit = ''{slots}'',
        metric_description = ''Number of queued slots in pool'',
        metric_data = Gauge,
        dp_timestamp = ts,
        dp_value = IntValue value,
        dp_attributes = [(''pool.name'', AttrStr poolName)]\<rparr> mb"

definition RecordPoolRunningSlots :: "int \<Rightarrow> string \<Rightarrow> Time \<Rightarrow> 'f MetricsBuilder \<Rightarrow> 'f MetricsBuilder" where
  "RecordPoolRunningSlots value poolName ts mb =
     AppendMetric
       \<lparr>metric_name = ''airflow.pool.slots.running'',
        metric_unit = ''{slots}'',
        metric_description = ''Number of running slots in pool'',
        metric_data = Gauge,
        dp_timestamp = ts,
        dp_value = IntValue value,
        dp_attributes = [(''pool.name'', AttrStr poolName)]\<rparr> mb"

definition RecordTaskInstanceDurationWithDimensions :: "'f \<Rightarrow> string \<Rightarrow> string \<Rightarrow> string \<Rightarrow> string \<Rightarrow> string \<Rightarrow> string \<Rightarrow> string \<Rightarrow> int \<Rightarrow> Time \<Rightarrow> 'f MetricsBuilder \<Rightarrow> 'f MetricsBuilder" where
  "RecordTaskInstanceDurationWithDimensions value dagID taskID dagRunID state operator pool queue tryNumber ts mb =
     AppendMetric
       \<lparr>metric_name = ''airflow.task.instance.duration'',
        metric_unit = ''s'',
        metric_description = ''Duration of task instance execution with full dimensions'',
        metric_data = Gauge,
        dp_timestamp = ts,
        dp_value = DoubleValue value,
        dp_attributes = [(''dag.id'', AttrStr dagID),
                         (''task.id'', AttrStr taskID),
                         (''dag_run.id'', AttrStr dagRunID),
                         (''state'', AttrStr state),
                         (''operator'', AttrStr operator),
                         (''pool'', AttrStr pool),
                         (''queue'', AttrStr queue),
                         (''try_number'', AttrInt tryNumber)]\<rparr> mb"

definition RecordDAGRunDurationWithDimensions :: "'f \<Rightarrow> string \<Rightarrow> string \<Rightarrow> string \<Rightarrow> string \<Rightarrow> bool \<Rightarrow> Time \<Rightarrow> 'f MetricsBuilder \<Rightarrow> 'f MetricsBuilder" where
  "RecordDAGRunDurationWithDimensions value dagID dagRunID runType state externalTrigger ts mb =
     AppendMetric
       \<lparr>metric_name = ''airflow.dag.run.duration'',
        metric_unit = ''s'',
        metric_description = ''Duration of DAG run execution with full dimensions'',
        metric_data = Gauge,
        dp_timestamp = ts,
        dp_value = DoubleValue value,
        dp_attributes = [(''dag.id'', AttrStr dagID),
                         (''dag_run.id'', AttrStr dagRunID),
                         (''run.type'', AttrStr runType),
                         (''state'', AttrStr state),
                         (''external_trigger'', AttrBool externalTrigger)]\<rparr> mb"

definition RecordPoolDeferredSlots :: "int \<Rightarrow> string \<Rightarrow> Time \<Rightarrow> 'f MetricsBuilder \<Rightarrow> 'f MetricsBuilder" where
  "RecordPoolDeferredSlots value poolName ts mb =
     AppendMetric
       \<lparr>metric_name = ''airflow.pool.slots.deferred'',
        metric_unit = ''{slots}'',
        metric_description = ''Number of deferred slots in pool'',
        metric_data = Gauge,
        dp_timestamp = ts,
        dp_value = IntValue value,
        dp_attributes = [(''pool.name'', AttrStr poolName)]\<rparr> mb"

definition RecordPoolScheduledSlots :: "int \<Rightarrow> string \<Rightarrow> Time \<Rightarrow> 'f MetricsBuilder \<Rightarrow> 'f MetricsBuilder" where
  "RecordPoolScheduledSlots value poolName ts mb =
     AppendMetric
       \<lparr>metric_name = ''airflow.pool.slots.scheduled'',
        metric_unit = ''{slots}'',
        metric_description = ''Number of scheduled slots in pool'',
        metric_data = Gauge,
        dp_timestamp = ts,
        dp_value = IntValue value,
        dp_attributes = [(''pool.name'', AttrStr poolName)]\<rparr> mb"

definition RecordTaskInstanceCountDB :: "int \<Rightarrow> string \<Rightarrow> string \<Rightarrow> string \<Rightarrow> string \<Rightarrow> string \<Rightarrow> Time \<Rightarrow> 'f MetricsBuilder \<Rightarrow> 'f MetricsBuilder" where
  "RecordTaskInstanceCountDB cnt dagID taskID state operator pool ts mb =
     AppendMetric
       \<lparr>metric_name = ''airflow.task.instance.count.db'',
        metric_unit = ''{tasks}'',
        metric_description = ''Task instance count from database aggregation (24h)'',
        metric_data = Gauge,
        dp_timestamp = ts,
        dp_value = IntValue cnt,
        dp_attributes = [(''dag.id'', AttrStr dagID),
                         (''task.id'', AttrStr taskID),
                         (''state'', AttrStr state),
                         (''operator'', AttrStr operator),
                         (''pool'', AttrStr pool)]\<rparr> mb"

definition RecordTaskInstanceAvgDuration :: "'f \<Rightarrow> string \<Rightarrow> string \<Rightarrow> string \<Rightarrow> Time \<Rightarrow> 'f MetricsBuilder \<Rightarrow> 'f MetricsBuilder" where
  "RecordTaskInstanceAvgDuration avg dagID taskID state ts mb =
     AppendMetric
       \<lparr>metric_name = ''airflow.task.instance.duration.avg'',
        metric_unit = ''s'',
        metric_description = ''Average task instance duration (24h)'',
        metric_data = Gauge,
        dp_timestamp = ts,
        dp_value = DoubleValue avg,
        dp_attributes = [(''dag.id'', AttrStr dagID),
                         (''task.id'', AttrStr taskID),
                         (''state'', AttrStr state)]\<rparr> mb"

definition RecordTaskInstanceMaxDuration :: "'f \<Rightarrow> string \<Rightarrow> string \<Rightarrow> string \<Rightarrow> Time \<Rightarrow> 'f MetricsBuilder \<Rightarrow> 'f MetricsBuilder" where
  "RecordTaskInstanceMaxDuration maxv dagID taskID state ts mb =
     AppendMetric
       \<lparr>metric_name = ''airflow.task.instance.duration.max'',
        metric_unit = ''s'',
        metric_description = ''Maximum task instance duration (24h)'',
        metric_data = Gauge,
        dp_timestamp = ts,
        dp_value = DoubleValue maxv,
        dp_attributes = [(''dag.id'', AttrStr dagID),
                         (''task.id'', AttrStr taskID),
                         (''state'', AttrStr state)]\<rparr> mb"

definition RecordDAGRunCountDB :: "int \<Rightarrow> string \<Rightarrow> string \<Rightarrow> Time \<Rightarrow> 'f MetricsBuilder \<Rightarrow> 'f MetricsBuilder" where
  "RecordDAGRunCountDB cnt dagID state ts mb =
     AppendMetric
       \<lparr>metric_name = ''airflow.dag.run.count.db'',
        metric_unit = ''{runs}'',
        metric_description = ''DAG run count from database (24h)'',
        metric_data = Gauge,
        dp_timestamp = ts,
        dp_value = IntValue cnt,
        dp_attributes = [(''dag.id'', AttrStr dagID),
                         (''state'', AttrStr state)]\<rparr> mb"

definition RecordDAGRunAvgDuration :: "'f \<Rightarrow> string \<Rightarrow> string \<Rightarrow> Time \<Rightarrow> 'f MetricsBuilder \<Rightarrow> 'f MetricsBuilder" where
  "RecordDAGRunAvgDuration avg dagID state ts mb =
     AppendMetric
       \<lparr>metric_name = ''airflow.dag.run.duration.avg'',
        metric_unit = ''s'',
        metric_description = ''Average DAG run duration (24h)'',
        metric_data = Gauge,
        dp_timestamp = ts,
        dp_value = DoubleValue avg,
        dp_attributes = [(''dag.id'', AttrStr dagID),
                         (''state'', AttrStr state)]\<rparr> mb"

definition RecordSchedulerTasksScheduled :: "int \<Rightarrow> Time \<Rightarrow> 'f MetricsBuilder \<Rightarrow> 'f MetricsBuilder" where
  "RecordSchedulerTasksScheduled cnt ts mb =
     AppendMetric
       \<lparr>metric_name = ''airflow.scheduler.tasks.scheduled'',
        metric_unit = ''{tasks}'',
        metric_description = ''Number of scheduled tasks'',
        metric_data = Gauge,
        dp_timestamp = ts,
        dp_value = IntValue cnt,
        dp_attributes = []\<rparr> mb"

definition RecordSchedulerTasksQueued :: "int \<Rightarrow> Time \<Rightarrow> 'f MetricsBuilder \<Rightarrow> 'f MetricsBuilder" where
  "RecordSchedulerTasksQueued cnt ts mb =
     AppendMetric
       \<lparr>metric_name = ''airflow.scheduler.tasks.queued'',
        metric_unit = ''{tasks}'',
        metric_description = ''Number of queued tasks'',
        metric_data = Gauge,
        dp_timestamp = ts,
        dp_value = IntValue cnt,
        dp_attributes = []\<rparr> mb"

definition RecordSchedulerTasksRunning :: "int \<Rightarrow> Time \<Rightarrow> 'f MetricsBuilder \<Rightarrow> 'f MetricsBuilder" where
  "RecordSchedulerTasksRunning cnt ts mb =
     AppendMetric
       \<lparr>metric_name = ''airflow.scheduler.tasks.running'',
        metric_unit = ''{tasks}'',
        metric_description = ''Number of running tasks'',
        metric_data = Gauge,
        dp_timestamp = ts,
        dp_value = IntValue cnt,
        dp_attributes = []\<rparr> mb"

definition RecordSchedulerTasksSuccess24h :: "int \<Rightarrow> Time \<Rightarrow> 'f MetricsBuilder \<Rightarrow> 'f MetricsBuilder" where
  "RecordSchedulerTasksSuccess24h cnt ts mb =
     AppendMetric
       \<lparr>metric_name = ''airflow.scheduler.tasks.success.24h'',
        metric_unit = ''{tasks}'',
        metric_description = ''Number of successful tasks in last 24 hours'',
        metric_data = Gauge,
        dp_timestamp = ts,
        dp_value = IntValue cnt,
        dp_attributes = []\<rparr> mb"

definition RecordSchedulerTasksFailed24h :: "int \<Rightarrow> Time \<Rightarrow> 'f MetricsBuilder \<Rightarrow> 'f MetricsBuilder" where
  "RecordSchedulerTasksFailed24h cnt ts mb =
     AppendMetric
       \<lparr>metric_name = ''airflow.scheduler.tasks.failed.24h'',
        metric_unit = ''{tasks}'',
        metric_description = ''Number of failed tasks in last 24 hours'',
        metric_data = Gauge,
        dp_timestamp = ts,
        dp_value = IntValue cnt,
        dp_attributes = []\<rparr> mb"

definition RecordSchedulerTasksOrphaned :: "int \<Rightarrow> Time \<Rightarrow> 'f MetricsBuilder \<Rightarrow> 'f MetricsBuilder" where
  "RecordSchedulerTasksOrphaned cnt ts mb =
     AppendMetric
       \<lparr>metric_name = ''airflow.scheduler.tasks.orphaned'',
        metric_unit = ''{tasks}'',
        metric_description = ''Number of orphaned tasks (running >1 hour)'',
        metric_data = Gauge,
        dp_timestamp = ts,
        dp_value = IntValue cnt,
        dp_attributes = []\<rparr> mb"

definition RecordSLAMissCount :: "int \<Rightarrow> string \<Rightarrow> Time \<Rightarrow> 'f MetricsBuilder \<Rightarrow> 'f MetricsBuilder" where
  "RecordSLAMissCount cnt dagID ts mb =
     AppendMetric
       \<lparr>metric_name = ''airflow.sla.miss.count'',
        metric_unit = ''{misses}'',
        metric_description = ''Number of SLA misses (24h)'',
        metric_data = Gauge,
        dp_timestamp = ts,
        dp_value = IntValue cnt,
        dp_attributes = [(''dag.id'', AttrStr dagID)]\<rparr> mb"

definition health_value :: "string \<Rightarrow> int" where
  "health_value status = (if status = ''healthy'' then 1 else 0)"

definition RecordSchedulerHealth :: "string \<Rightarrow> Time \<Rightarrow> 'f MetricsBuilder \<Rightarrow> 'f MetricsBuilder" where
  "RecordSchedulerHealth status ts mb =
     AppendMetric
       \<lparr>metric_name = ''airflow.scheduler.health'',
        metric_unit = ''{status}'',
        metric_description = ''Scheduler health status (1=healthy, 0=unhealthy)'',
        metric_data = Gauge,
        dp_timestamp = ts,
        dp_value = IntValue (health_value status),
        dp_attributes = [(''status'', AttrStr status)]\<rparr> mb"

definition RecordDatabaseHealth :: "string \<Rightarrow> Time \<Rightarrow> 'f MetricsBuilder \<Rightarrow> 'f MetricsBuilder" where
  "RecordDatabaseHealth status ts mb =
     AppendMetric
       \<lparr>metric_name = ''airflow.database.health'',
        metric_unit = ''{status}'',
        metric_description = ''Database health status (1=healthy, 0=unhealthy)'',
        metric_data = Gauge,
        dp_timestamp = ts,
        dp_value = IntValue (health_value status),
        dp_attributes = [(''status'', AttrStr status)]\<rparr> mb"

definition RecordPoolTotalSlots :: "int \<Rightarrow> string \<Rightarrow> string \<Rightarrow> Time \<Rightarrow> 'f MetricsBuilder \<Rightarrow> 'f MetricsBuilder" where
  "RecordPoolTotalSlots value poolName description ts mb =
     AppendMetric
       \<lparr>metric_name = ''airflow.pool.slots.total'',
        metric_unit = ''{slots}'',
        metric_description = ''Total capacity of pool'',
        metric_data = Gauge,
        dp_timestamp = ts,
        dp_value = IntValue value,
        dp_attributes = (''pool.name'', AttrStr poolName) #
          (if description \<noteq> [] then [(''pool.description'', AttrStr description)] else [])\<rparr> mb"

text \<open>The comma-separated tag string of \<^verbatim>\<open>RecordDAGWithTags\<close>.\<close>

definition tagStr_of :: "string list \<Rightarrow> string" where
  "tagStr_of tags =
     foldl (\<lambda>tagStr (i, tag). (if i > 0 then tagStr @ '','' else tagStr) @ tag) []
       (zip [0..<length tags] tags)"

definition RecordDAGWithTags :: "int \<Rightarrow> string \<Rightarrow> string list \<Rightarrow> bool \<Rightarrow> Time \<Rightarrow> 'f MetricsBuilder \<Rightarrow> 'f MetricsBuilder" where
  "RecordDAGWithTags cnt dagID tags isPaused ts mb =
     AppendMetric
       \<lparr>metric_name = ''airflow.dag.info'',
        metric_unit = ''{dag}'',
        metric_description = ''DAG information with tags'',
        metric_data = Gauge,
        dp_timestamp = ts,
        dp_value = IntValue cnt,
        dp_attributes = [(''dag.id'', AttrStr dagID), (''is_paused'', AttrBool isPaused)] @
          (if length tags > 0 then [(''tags'', AttrStr (tagStr_of tags))] else [])\<rparr> mb"

text \<open>The generic metrics of the StatsD adapter copy the tag map into the attributes of
  the data point, in the order in which the \<^verbatim>\<open>range\<close> over the tags visits them; the
  argument \<open>choice\<close> is the runtime's choice for that iteration.\<close>

definition tag_attributes :: "nat list \<Rightarrow> (string \<times> string) list \<Rightarrow> (string \<times> attr) list" where
  "tag_attributes choice tags = map (\<lambda>(k, v). (k, AttrStr v)) (range_entries choice tags)"

definition RecordGenericCounter :: "nat list \<Rightarrow> int \<Rightarrow> string \<Rightarrow> (string \<times> string) list \<Rightarrow> Time \<Rightarrow> 'f MetricsBuilder \<Rightarrow> 'f MetricsBuilder" where
  "RecordGenericCounter choice value metricName tags ts mb =
     AppendMetric
       \<lparr>metric_name = metricName,
        metric_unit = ''{count}'',
        metric_description = ''StatsD counter metric'',
        metric_data = MonotonicCumulativeSum,
        dp_timestamp = ts,
        dp_value = IntValue value,
        dp_attributes = tag_attributes choice tags\<rparr> mb"

definition RecordGenericGauge :: "nat list \<Rightarrow> 'f \<Rightarrow> string \<Rightarrow> (string \<times> string) list \<Rightarrow> Time \<Rightarrow> 'f MetricsBuilder \<Rightarrow> 'f MetricsBuilder" where
  "RecordGenericGauge choice value metricName tags ts mb =
     AppendMetric
       \<lparr>metric_name = metricName,
        metric_unit = ''{value}'',
        metric_description = ''StatsD gauge metric'',
        metric_data = Gauge,
        dp_timestamp = ts,
        dp_value = DoubleValue value,
        dp_attributes = tag_attributes choice tags\<rparr> mb"

text \<open>The timer appends three metrics, with one iteration over the tags each.\<close>

definition RecordGenericTimer :: "nat list \<Rightarrow> nat list \<Rightarrow> nat list \<Rightarrow> 'f \<Rightarrow> 'f \<Rightarrow> 'f \<Rightarrow> string \<Rightarrow> (string \<times> string) list \<Rightarrow> Time \<Rightarrow> 'f MetricsBuilder \<Rightarrow> 'f MetricsBuilder" where
  "RecordGenericTimer choice1 choice2 choice3 avg minv maxv metricName tags ts mb =
     AppendMetric
       \<lparr>metric_name = metricName @ ''.max'',
        metric_unit = ''ms'',
        metric_description = [],
        metric_data = Gauge,
        dp_timestamp = ts,
        dp_value = DoubleValue maxv,
        dp_attributes = tag_attributes choice3 tags\<rparr>
     (AppendMetric
       \<lparr>metric_name = metricName @ ''.min'',
        metric_unit = ''ms'',
        metric_description = [],
        metric_data = Gauge,
        dp_timestamp = ts,
        dp_value = DoubleValue minv,
        dp_attributes = tag_attributes choice2 tags\<rparr>
     (AppendMetric
       \<lparr>metric_name = metricName @ ''.avg'',
        metric_unit = ''ms'',
        metric_description = ''StatsD timer average'',
        metric_data = Gauge,
        dp_timestamp = ts,
        dp_value = DoubleValue avg,
        dp_attributes = tag_attributes choice1 tags\<rparr> mb))"

text \<open>Modelled from the spec: the seven \<^verbatim>\<open>RecordScraper...\<close> methods that
  \<^verbatim>\<open>ScraperHealth.EmitMetrics\<close> calls are missing from the sources. Each is modelled as
  every method of the builder that is present: it appends one metric. The metric names
  are those the repository's README lists for the health metrics, the attribute is the
  scraper type; units and descriptions are not known and left empty.\<close>

definition RecordScraperMetric :: "string \<Rightarrow> 'f number \<Rightarrow> string \<Rightarrow> Time \<Rightarrow> 'f MetricsBuilder \<Rightarrow> 'f MetricsBuilder" where
  "RecordScraperMetric metricName value ty ts mb =
     AppendMetric
       \<lparr>metric_name = metricName,
        metric_unit = [],
        metric_description = [],
        metric_data = Gauge,
        dp_timestamp = ts,
        dp_value = value,
        dp_attributes = [(''scraper_type'', AttrStr ty)]\<rparr> mb"

definition RecordScraperTotalScrapes :: "int \<Rightarrow> string \<Rightarrow> Time \<Rightarrow> 'f MetricsBuilder \<Rightarrow> 'f MetricsBuilder" where
  "RecordScraperTotalScrapes value = RecordScraperMetric ''airflow.scraper.scrapes.total'' (IntValue value)"

definition RecordScraperSuccessfulScrapes :: "int \<Rightarrow> string \<Rightarrow> Time \<Rightarrow> 'f MetricsBuilder \<Rightarrow> 'f MetricsBuilder" where
  "RecordScraperSuccessfulScrapes value = RecordScraperMetric ''airflow.scraper.scrapes.successful'' (IntValue value)"

definition RecordScraperFailedScrapes :: "int \<Rightarrow> string \<Rightarrow> Time \<Rightarrow> 'f MetricsBuilder \<Rightarrow> 'f MetricsBuilder" where
  "RecordScraperFailedScrapes value = RecordScraperMetric ''airflow.scraper.scrapes.failed'' (IntValue value)"

definition RecordScraperHealthStatus :: "int \<Rightarrow> string \<Rightarrow> Time \<Rightarrow> 'f MetricsBuilder \<Rightarrow> 'f MetricsBuilder" where
  "RecordScraperHealthStatus value = RecordScraperMetric ''airflow.scraper.health'' (IntValue value)"

definition RecordScraperLastDuration :: "'f \<Rightarrow> string \<Rightarrow> Time \<Rightarrow> 'f MetricsBuilder \<Rightarrow> 'f MetricsBuilder" where
  "RecordScraperLastDuration value = RecordScraperMetric ''airflow.scraper.duration.last'' (DoubleValue value)"

definition RecordScraperAvgDuration :: "'f \<Rightarrow> string \<Rightarrow> Time \<Rightarrow> 'f MetricsBuilder \<Rightarrow> 'f MetricsBuilder" where
  "RecordScraperAvgDuration value = RecordScraperMetric ''airflow.scraper.duration.avg'' (DoubleValue value)"

definition RecordScraperConsecutiveErrors :: "int \<Rightarrow> string \<Rightarrow> Time \<Rightarrow> 'f MetricsBuilder \<Rightarrow> 'f MetricsBuilder" where
  "RecordScraperConsecutiveErrors value = RecordScraperMetric ''airflow.scraper.errors.consecutive'' (IntValue value)"

text \<open>\<^verbatim>\<open>ScraperHealth.EmitMetrics\<close>: the tracker's state written into a builder, all
  with the timestamp passed in. The durations are written in seconds
  (\<^verbatim>\<open>Duration.Seconds()\<close>).\<close>

definition EmitMetrics :: "'f float64_ops \<Rightarrow> 'e ScraperHealth \<Rightarrow> Time \<Rightarrow> 'f MetricsBuilder \<Rightarrow> 'f MetricsBuilder" where
  "EmitMetrics ops h ts mb =
     (let mb1 = RecordScraperTotalScrapes (totalScrapes h) (scraperType h) ts mb;
          mb2 = RecordScraperSuccessfulScrapes (successfulScrapes h) (scraperType h) ts mb1;
          mb3 = RecordScraperFailedScrapes (failedScrapes h) (scraperType h) ts mb2;
          healthValue = (if healthy h then 1 else 0);
          mb4 = RecordScraperHealthStatus healthValue (scraperType h) ts mb3;
          mb5 = (if lastScrapeDuration h > 0
                 then RecordScraperLastDuration (f64_seconds ops (lastScrapeDuration h)) (scraperType h) ts mb4
                 else mb4);
          mb6 = (if avgScrapeDuration h > 0
                 then RecordScraperAvgDuration (f64_seconds ops (avgScrapeDuration h)) (scraperType h) ts mb5
                 else mb5)
      in RecordScraperConsecutiveErrors (consecutiveErrors h) (scraperType h) ts mb6)"

section \<open>StatsD aggregator (\<^verbatim>\<open>StatsDScraper\<close>)\<close>

subsection \<open>Functions of Go's \<^verbatim>\<open>strings\<close> package\<close>

text \<open>\<^verbatim>\<open>strings.Split(s, sep)\<close> for a separator of one byte: the pieces between the
  separators; one (empty) piece for the empty string. \<open>split_from\<close> walks through the
  string with the bytes of the current piece, last first.\<close>

fun split_from :: "char \<Rightarrow> string \<Rightarrow> string \<Rightarrow> string list" where
  "split_from sep piece [] = [rev piece]"
| "split_from sep piece (c # s) =
     (if c = sep then rev piece # split_from sep [] s
      else split_from sep (c # piece) s)"

definition Split :: "string \<Rightarrow> char \<Rightarrow> string list" where
  "Split s sep = split_from sep [] s"

text \<open>\<^verbatim>\<open>strings.SplitN(s, sep, 2)\<close> for a separator of one byte: the text before the
  first separator and the unsplit remainder, or \<open>s\<close> alone without a separator.\<close>

definition SplitN2 :: "string \<Rightarrow> char \<Rightarrow> string list" where
  "SplitN2 s sep =
     (if sep \<in> set s
      then [takeWhile (\<lambda>c. c \<noteq> sep) s, tl (dropWhile (\<lambda>c. c \<noteq> sep) s)]
      else [s])"

text \<open>\<^verbatim>\<open>strings.HasPrefix(s, p)\<close> for a prefix \<open>p\<close> of one byte.\<close>

definition HasPrefix :: "string \<Rightarrow> char \<Rightarrow> bool" where
  "HasPrefix s p = (case s of [] \<Rightarrow> False | c # _ \<Rightarrow> c = p)"

text \<open>\<^verbatim>\<open>strings.TrimSpace\<close>. Strings are byte sequences in UTF-8; the white space of
  \<^verbatim>\<open>unicode.IsSpace\<close> is six characters of one byte, U+0085 and U+00A0 of two bytes, and
  U+1680, U+2000 to U+200A, U+2028, U+2029, U+202F, U+205F and U+3000 of three.\<close>

definition space1 :: "char \<Rightarrow> bool" where
  "space1 a = (a \<in> set [CHR 0x09, CHR 0x0A, CHR 0x0B, CHR 0x0C, CHR 0x0D, CHR 0x20])"

definition space2 :: "char \<Rightarrow> char \<Rightarrow> bool" where
  "space2 a b = (a = CHR 0xC2 \<and> (b = CHR 0x85 \<or> b = CHR 0xA0))"

definition space3 :: "char \<Rightarrow> char \<Rightarrow> char \<Rightarrow> bool" where
  "space3 a b c =
     ((a = CHR 0xE1 \<and> b = CHR 0x9A \<and> c = CHR 0x80)
      \<or> (a = CHR 0xE2 \<and> b = CHR 0x80 \<and>
          c \<in> set [CHR 0x80, CHR 0x81, CHR 0x82, CHR 0x83, CHR 0x84, CHR 0x85, CHR 0x86,
                   CHR 0x87, CHR 0x88, CHR 0x89, CHR 0x8A, CHR 0xA8, CHR 0xA9, CHR 0xAF])
      \<or> (a = CHR 0xE2 \<and> b = CHR 0x81 \<and> c = CHR 0x9F)
      \<or> (a = CHR 0xE3 \<and> b = CHR 0x80 \<and> c = CHR 0x80))"

fun TrimLeftSpace :: "string \<Rightarrow> string" where
  "TrimLeftSpace (a # b # c # s) =
     (if space1 a then TrimLeftSpace (b # c # s)
      else if space2 a b then TrimLeftSpace (c # s)
      else if space3 a b c then TrimLeftSpace s
      else a # b # c # s)"
| "TrimLeftSpace [a, b] =
     (if space1 a then TrimLeftSpace [b] else if space2 a b then [] else [a, b])"
| "TrimLeftSpace [a] = (if space1 a then [] else [a])"
| "TrimLeftSpace [] = []"

text \<open>The same from the end, on the reversed string.\<close>

fun trim_reversed :: "string \<Rightarrow> string" where
  "trim_reversed (c # b # a # s) =
     (if space1 c then trim_reversed (b # a # s)
      else if space2 b c then trim_reversed (a # s)
      else if space3 a b c then trim_reversed s
      else c # b # a # s)"
| "trim_reversed [c, b] =
     (if space1 c then trim_reversed [b] else if space2 b c then [] else [c, b])"
| "trim_reversed [c] = (if space1 c then [] else [c])"
| "trim_reversed [] = []"

definition TrimRightSpace :: "string \<Rightarrow> string" where
  "TrimRightSpace s = rev (trim_reversed (rev s))"

definition TrimSpace :: "string \<Rightarrow> string" where
  "TrimSpace s = TrimRightSpace (TrimLeftSpace s)"

subsection \<open>Parsing a line\<close>

text \<open>A cell of the aggregation table, and also a parsed line. The fields \<^verbatim>\<open>Min\<close> and
  \<^verbatim>\<open>Max\<close> of the source are \<open>MinValue\<close> and \<open>MaxValue\<close> here.\<close>

record 'f StatsDMetric =
  Name :: string
  Value :: 'f
  Type :: string
  SampleRate :: 'f
  Tags :: "(string \<times> string) list"
  Count :: int
  Sum :: 'f
  MinValue :: 'f
  MaxValue :: 'f

text \<open>One tag pair \<^verbatim>\<open>k:v\<close> of the part that starts with \<^verbatim>\<open>#\<close>.\<close>

definition parse_tag :: "string \<Rightarrow> (string \<times> string) list \<Rightarrow> (string \<times> string) list" where
  "parse_tag pair tags =
     (let kv = SplitN2 pair CHR '':''
      in if length kv = 2 then AList.update (kv ! 0) (kv ! 1) tags else tags)"

text \<open>One part of the line after the type: a sample rate or a list of tags.\<close>

definition parse_part :: "'f float64_ops \<Rightarrow> string \<Rightarrow> 'f StatsDMetric \<Rightarrow> 'f StatsDMetric" where
  "parse_part ops part metric =
     (if HasPrefix part CHR ''@'' then
        (case ParseFloat ops (tl part) of
           Some rate \<Rightarrow> metric\<lparr>SampleRate := rate\<rparr>
         | None \<Rightarrow> metric)
      else if HasPrefix part CHR ''#'' then
        metric\<lparr>Tags := fold parse_tag (Split (tl part) CHR '','') (Tags metric)\<rparr>
      else metric)"

definition parseStatsDLine :: "'f float64_ops \<Rightarrow> string \<Rightarrow> 'f StatsDMetric option" where
  "parseStatsDLine ops line =
     (let parts = Split line CHR ''|''
      in if length parts < 2 then None
         else
           (let nameValue = SplitN2 (parts ! 0) CHR '':''
            in if length nameValue \<noteq> 2 then None
               else
                 (case ParseFloat ops (nameValue ! 1) of
                    None \<Rightarrow> None
                  | Some value \<Rightarrow>
                      Some (fold (parse_part ops) (drop 2 parts)
                              \<lparr>Name = nameValue ! 0, Value = value, Type = parts ! 1,
                               SampleRate = f64_of_int ops 1, Tags = [], Count = 0,
                               Sum = f64_of_int ops 0, MinValue = f64_of_int ops 0,
                               MaxValue = f64_of_int ops 0\<rparr>))))"

subsection \<open>The aggregation table\<close>

text \<open>What \<^verbatim>\<open>Scrape\<close> hands back: a handle on the builder's collection, or a new
  empty collection. \<open>collected\<close> is what the holder of the handle sees in a builder.\<close>

datatype metrics_handle = BuilderMetrics | NewMetrics

definition collected :: "'f MetricsBuilder \<Rightarrow> metrics_handle \<Rightarrow> 'f Metric list" where
  "collected mb h = (case h of BuilderMetrics \<Rightarrow> Emit mb | NewMetrics \<Rightarrow> [])"

text \<open>The adapter: its builder, the table \<^verbatim>\<open>metrics\<close> from key to cell, the log, and the
  number of reads of the environment made so far.\<close>

record 'f StatsDScraper =
  statsd_mb :: "'f MetricsBuilder"
  statsd_metrics :: "(string \<times> 'f StatsDMetric) list"
  statsd_logged :: "string entry list"
  statsd_reads :: nat

definition NewStatsDScraper :: "'f StatsDScraper" where
  "NewStatsDScraper =
     \<lparr>statsd_mb = NewMetricsBuilder, statsd_metrics = [], statsd_logged = [], statsd_reads = 0\<rparr>"

text \<open>The key of a metric's cell: the name, then \<^verbatim>\<open>,k=v\<close> for each tag in the order the
  \<^verbatim>\<open>range\<close> over the tag map visits them.\<close>

definition cell_key :: "nat list \<Rightarrow> 'f StatsDMetric \<Rightarrow> string" where
  "cell_key choice metric =
     foldl (\<lambda>key (k, v). key @ '','' @ k @ ''='' @ v) (Name metric)
       (range_entries choice (Tags metric))"

text \<open>The \<^verbatim>\<open>switch\<close> that updates an existing cell by a line of the same key.\<close>

definition update_cell :: "'f float64_ops \<Rightarrow> 'f StatsDMetric \<Rightarrow> 'f StatsDMetric \<Rightarrow> 'f StatsDMetric" where
  "update_cell ops metric existing =
     (if Type metric = ''c'' then
        existing\<lparr>Value := f64_add ops (Value existing)
                             (f64_div ops (Value metric) (SampleRate metric))\<rparr>
      else if Type metric = ''g'' then
        existing\<lparr>Value := Value metric\<rparr>
      else if Type metric = ''ms'' \<or> Type metric = ''h'' then
        (let e1 = existing\<lparr>Count := Count existing + 1,
                           Sum := f64_add ops (Sum existing) (Value metric)\<rparr>;
             e2 = (if f64_less ops (Value metric) (MinValue e1)
                   then e1\<lparr>MinValue := Value metric\<rparr> else e1)
         in if f64_less ops (MaxValue e2) (Value metric)
            then e2\<lparr>MaxValue := Value metric\<rparr> else e2)
      else existing)"

definition aggregate :: "env \<Rightarrow> 'f float64_ops \<Rightarrow> 'f StatsDMetric \<Rightarrow> 'f StatsDScraper \<Rightarrow> 'f StatsDScraper" where
  "aggregate e ops metric s =
     (let key = cell_key (range_at e (statsd_reads s)) metric;
          s1 = s\<lparr>statsd_reads := statsd_reads s + 1\<rparr>
      in case map_of (statsd_metrics s1) key of
           None \<Rightarrow>
             s1\<lparr>statsd_metrics := AList.update key
                  \<lparr>Name = Name metric, Value = Value metric, Type = Type metric,
                   SampleRate = f64_of_int ops 0, Tags = Tags metric, Count = 1,
                   Sum = Value metric, MinValue = Value metric, MaxValue = Value metric\<rparr>
                  (statsd_metrics s1)\<rparr>
         | Some existing \<Rightarrow>
             s1\<lparr>statsd_metrics := AList.update key (update_cell ops metric existing)
                  (statsd_metrics s1)\<rparr>)"

text \<open>The body of the loop of \<^verbatim>\<open>parseAndAggregate\<close> for one line.\<close>

definition aggregate_line :: "env \<Rightarrow> 'f float64_ops \<Rightarrow> 'f StatsDScraper \<Rightarrow> string \<Rightarrow> 'f StatsDScraper" where
  "aggregate_line e ops s line =
     (if line = [] then s
      else case parseStatsDLine ops line of
             None \<Rightarrow> s
           | Some metric \<Rightarrow> aggregate e ops metric s)"

definition parseAndAggregate :: "env \<Rightarrow> 'f float64_ops \<Rightarrow> string \<Rightarrow> 'f StatsDScraper \<Rightarrow> 'f StatsDScraper" where
  "parseAndAggregate e ops data s =
     foldl (aggregate_line e ops) s (Split (TrimSpace data) CHR 0x0A)"

subsection \<open>Scrape\<close>

text \<open>The body of the loop of \<^verbatim>\<open>Scrape\<close> for one cell: the clock is read for the
  argument \<^verbatim>\<open>time.Now()\<close>, then the method called iterates over the tags (three times for
  a timer).\<close>

definition record_cell :: "env \<Rightarrow> 'f float64_ops \<Rightarrow> 'f StatsDScraper \<Rightarrow> 'f StatsDMetric \<Rightarrow> 'f StatsDScraper" where
  "record_cell e ops s metric =
     (let k = statsd_reads s
      in if Type metric = ''c'' then
           s\<lparr>statsd_mb := RecordGenericCounter (range_at e (k + 1))
                              (f64_to_int64 ops (Value metric))
                              (Name metric) (Tags metric) (now_at e k) (statsd_mb s),
             statsd_reads := k + 2\<rparr>
         else if Type metric = ''g'' then
           s\<lparr>statsd_mb := RecordGenericGauge (range_at e (k + 1)) (Value metric)
                              (Name metric) (Tags metric) (now_at e k) (statsd_mb s),
             statsd_reads := k + 2\<rparr>
         else if Type metric = ''ms'' \<or> Type metric = ''h'' then
           (if Count metric > 0 then
              (let avg = f64_div ops (Sum metric) (f64_of_int ops (Count metric))
               in s\<lparr>statsd_mb := RecordGenericTimer (range_at e (k + 1)) (range_at e (k + 2))
                                     (range_at e (k + 3)) avg (MinValue metric) (MaxValue metric)
                                     (Name metric) (Tags metric) (now_at e k) (statsd_mb s),
                    statsd_reads := k + 4\<rparr>)
            else s)
         else s)"

definition StatsDScraper_Scrape ::
  "env \<Rightarrow> 'f float64_ops \<Rightarrow> 'f StatsDScraper \<Rightarrow> 'f StatsDScraper \<times> metrics_handle \<times> string option"
where
  "StatsDScraper_Scrape e ops s =
     (let cells = range_entries (range_at e (statsd_reads s)) (statsd_metrics s);
          s1 = s\<lparr>statsd_reads := statsd_reads s + 1\<rparr>;
          s2 = foldl (record_cell e ops) s1 (map snd cells);
          s3 = s2\<lparr>statsd_logged := statsd_logged s2 @
                    [Entry DebugLevel ''Scraped StatsD metrics''
                       [zap_Int ''metric_count''
                          (int (length (remdups (map fst (statsd_metrics s2)))))]]\<rparr>
      in (s3, BuilderMetrics, None))"

subsection \<open>A \<^verbatim>\<open>float64\<close> for evaluating concrete runs\<close>

text \<open>Exact arithmetic on rationals. It agrees with \<^verbatim>\<open>float64\<close> wherever the operands and
  the result of an operation are finite and exactly representable, and stands for it
  where a run is evaluated on such values. \<open>decimal\<close> reads a plain decimal literal (an
  optional sign, digits, an optional fraction), as \<^verbatim>\<open>strconv.ParseFloat\<close> does on such a
  literal.\<close>

definition digit_value :: "char \<Rightarrow> nat option" where
  "digit_value c =
     (let n = of_char c :: nat in if 48 \<le> n \<and> n \<le> 57 then Some (n - 48) else None)"

fun digits_value :: "string \<Rightarrow> nat \<Rightarrow> nat option" where
  "digits_value [] acc = Some acc"
| "digits_value (c # s) acc =
     (case digit_value c of None \<Rightarrow> None | Some d \<Rightarrow> digits_value s (10 * acc + d))"

definition unsigned_decimal :: "string \<Rightarrow> rat option" where
  "unsigned_decimal s =
     (let whole = takeWhile (\<lambda>c. c \<noteq> CHR ''.'') s;
          frac = drop (Suc (length whole)) s
      in if whole = [] \<and> frac = [] then None
         else case (digits_value whole 0, digits_value frac 0) of
                (Some w, Some f) \<Rightarrow> Some (of_nat w + of_nat f / 10 ^ length frac)
              | _ \<Rightarrow> None)"

definition decimal :: "string \<Rightarrow> rat option" where
  "decimal s =
     (case s of
        [] \<Rightarrow> None
      | c # rest \<Rightarrow>
          if c = CHR ''-'' then map_option uminus (unsigned_decimal rest)
          else if c = CHR ''+'' then unsigned_decimal rest
          else unsigned_decimal s)"

definition exact_float64 :: "rat float64_ops" where
  "exact_float64 =
     \<lparr>f64_of_int = of_int,
      f64_to_int64 = int64_of_float64 (\<lambda>x. - (2 ^ 63)),
      f64_add = (+),
      f64_div = (/),
      f64_less = (<),
      f64_seconds = (\<lambda>d. of_int d / 1000000000),
      ParseFloat = decimal\<rparr>"

subsection \<open>Observing a scrape\<close>

text \<open>The adapter after a call of \<^verbatim>\<open>Scrape\<close>, and the metrics that the caller receives:
  the content, when \<^verbatim>\<open>Scrape\<close> returns, of the collection behind the handle.\<close>

definition StatsDScraper_after_Scrape :: "env \<Rightarrow> 'f float64_ops \<Rightarrow> 'f StatsDScraper \<Rightarrow> 'f StatsDScraper" where
  "StatsDScraper_after_Scrape e ops s = fst (StatsDScraper_Scrape e ops s)"

definition StatsDScraper_emitted :: "env \<Rightarrow> 'f float64_ops \<Rightarrow> 'f StatsDScraper \<Rightarrow> 'f Metric list" where
  "StatsDScraper_emitted e ops s =
     (case StatsDScraper_Scrape e ops s of
        (s', handle, err) \<Rightarrow> collected (statsd_mb s') handle)"

text \<open>What a metric reports: all of it but the time at which it was recorded, the
  attributes as the map from key to value that they are.\<close>

definition reported ::
  "'f Metric \<Rightarrow> string \<times> string \<times> string \<times> metric_data \<times> 'f number \<times> (string \<Rightarrow> attr option)"
where
  "reported m =
     (metric_name m, metric_unit m, metric_description m, metric_data m, dp_value m,
      map_of (dp_attributes m))"

text \<open>What \<^verbatim>\<open>Scrape\<close> reports for one cell.\<close>

definition cell_report ::
  "'f float64_ops \<Rightarrow> 'f StatsDMetric \<Rightarrow>
   (string \<times> string \<times> string \<times> metric_data \<times> 'f number \<times> (string \<Rightarrow> attr option)) list"
where
  "cell_report ops metric =
     map reported
       (mb_metrics (statsd_mb (record_cell \<lparr>now_at = (\<lambda>k. 0), range_at = (\<lambda>k. [])\<rparr> ops
                                 (NewStatsDScraper\<lparr>statsd_mb := NewMetricsBuilder\<lparr>mb_metrics := []\<rparr>\<rparr>)
                                 metric)))"

section \<open>Incremental log adapter (\<^verbatim>\<open>internal/scraper/log_scraper.go\<close>)\<close>

subsection \<open>Logs builder\<close>

datatype SeverityNumber = SeverityNumberInfo | SeverityNumberWarn | SeverityNumberError

record LogRecord =
  lr_timestamp :: Time
  lr_observed_timestamp :: Time
  lr_severity_number :: SeverityNumber
  lr_severity_text :: string
  lr_body :: "string option"
  lr_attributes :: "(string \<times> attr) list"

record LogsBuilder =
  lb_resource_attributes :: "(string \<times> attr) list"
  lb_scope_name :: string
  lb_scope_version :: string
  lb_records :: "LogRecord list"

definition NewLogsBuilder :: LogsBuilder where
  "NewLogsBuilder =
     \<lparr>lb_resource_attributes =
        [(''service.name'', AttrStr ''airflow''), (''airflow.component'', AttrStr ''event_logs'')],
      lb_scope_name = ''github.com/npcomplete777/airflowreceiver/log_scraper'',
      lb_scope_version = ''0.0.1'',
      lb_records = []\<rparr>"

definition getSeverityFromEvent :: "string \<Rightarrow> SeverityNumber" where
  "getSeverityFromEvent event =
     (if event = ''failed'' \<or> event = ''failed_task'' then SeverityNumberError
      else if event = ''success'' \<or> event = ''success_task'' then SeverityNumberInfo
      else if event = ''running'' then SeverityNumberInfo
      else if event = ''skipped'' then SeverityNumberWarn
      else if event = ''up_for_retry'' \<or> event = ''retry'' then SeverityNumberWarn
      else if event = ''up_for_reschedule'' then SeverityNumberInfo
      else SeverityNumberInfo)"

definition getSeverityText :: "SeverityNumber \<Rightarrow> string" where
  "getSeverityText severity =
     (case severity of
        SeverityNumberError \<Rightarrow> ''ERROR''
      | SeverityNumberWarn \<Rightarrow> ''WARN''
      | SeverityNumberInfo \<Rightarrow> ''INFO'')"

text \<open>\<^verbatim>\<open>RecordEventLog\<close>. \<open>rfc3339\<close> is \<^verbatim>\<open>Time.Format(time.RFC3339)\<close> and \<open>now\<close> the value of
  \<^verbatim>\<open>time.Now()\<close>. The entries of \<^verbatim>\<open>extra\<close> become attributes; as for the tags of a StatsD
  metric, they are listed in the order of the map.\<close>

definition RecordEventLog ::
  "(Time \<Rightarrow> string) \<Rightarrow> Time \<Rightarrow> Time \<Rightarrow> string \<Rightarrow> string \<Rightarrow> string \<Rightarrow> string \<Rightarrow> Time \<Rightarrow>
   (string \<times> string) list \<Rightarrow> LogsBuilder \<Rightarrow> LogsBuilder"
where
  "RecordEventLog rfc3339 now timestamp dagID taskID event owner executionDate extra lb =
     (let severity = getSeverityFromEvent event
      in lb\<lparr>lb_records := lb_records lb @
           [\<lparr>lr_timestamp = timestamp,
             lr_observed_timestamp = now,
             lr_severity_number = severity,
             lr_severity_text = getSeverityText severity,
             lr_body = (if event \<noteq> [] then Some (''Airflow event: '' @ event) else None),
             lr_attributes =
               [(''airflow.log.source'', AttrStr ''database'')] @
               (if dagID \<noteq> [] then [(''dag.id'', AttrStr dagID)] else []) @
               (if taskID \<noteq> [] then [(''task.id'', AttrStr taskID)] else []) @
               (if event \<noteq> [] then [(''airflow.event'', AttrStr event)] else []) @
               (if executionDate \<noteq> 0
                then [(''execution.date'', AttrStr (rfc3339 executionDate))] else []) @
               (if owner \<noteq> [] then [(''owner'', AttrStr owner)] else []) @
               map (\<lambda>(key, value). (''extra.'' @ key, AttrStr value)) extra\<rparr>]\<rparr>)"

subsection \<open>The adapter\<close>

text \<open>A row of the table \<^verbatim>\<open>log\<close> as the query selects it. The nullable columns are
  options: \<open>None\<close> is \<^verbatim>\<open>NULL\<close>, which \<^verbatim>\<open>sql.NullString\<close> reads as the empty string and
  \<^verbatim>\<open>sql.NullTime\<close> as the zero time.\<close>

record log_row =
  row_id :: int
  row_dttm :: Time
  row_dag_id :: "string option"
  row_task_id :: "string option"
  row_event :: "string option"
  row_execution_date :: "Time option"
  row_owner :: "string option"
  row_extra :: "string option"

definition NullString_String :: "string option \<Rightarrow> string" where
  "NullString_String v = (case v of None \<Rightarrow> [] | Some s \<Rightarrow> s)"

definition NullTime_Time :: "Time option \<Rightarrow> Time" where
  "NullTime_Time v = (case v of None \<Rightarrow> 0 | Some t \<Rightarrow> t)"

text \<open>What the adapter uses of Go's library and of the database. \<open>json_Unmarshal\<close> decodes
  a JSON object into its members (\<open>None\<close> is an error); only the members that are
  strings are used. \<open>query_logs k w\<close> is the outcome of the query with parameter \<open>w\<close> made
  as read number \<open>k\<close>: an error, or the rows that \<^verbatim>\<open>rows.Next()\<close> yields, each with the
  outcome of \<^verbatim>\<open>rows.Scan\<close> (\<open>Inl\<close> is its error), and the error of \<^verbatim>\<open>rows.Err()\<close>.\<close>

datatype json_value = JSONString string | JSONOther

record log_env = env +
  format_RFC3339 :: "Time \<Rightarrow> string"
  json_Unmarshal :: "string \<Rightarrow> (string \<times> json_value) list option"
  query_logs :: "nat \<Rightarrow> int \<Rightarrow> string + ((string + log_row) list \<times> string option)"

text \<open>The rows the query of \<^verbatim>\<open>Scrape\<close> asks for:
  \<^verbatim>\<open>SELECT ... FROM log WHERE id > $1 ORDER BY id ASC LIMIT 1000\<close>.\<close>

definition select_logs :: "log_row list \<Rightarrow> int \<Rightarrow> log_row list" where
  "select_logs table w = take 1000 (sort_key row_id (filter (\<lambda>r. row_id r > w) table))"

text \<open>A database that holds the rows \<open>table\<close> and answers the query without any error.\<close>

definition log_database ::
  "log_row list \<Rightarrow> nat \<Rightarrow> int \<Rightarrow> string + ((string + log_row) list \<times> string option)"
where
  "log_database table k w = Inr (map Inr (select_logs table w), None)"

text \<open>The adapter: the builder of the current cycle, the watermark, the parameters of the
  queries made so far, the log, and the number of reads of the environment.\<close>

record LogScraper =
  log_lb :: LogsBuilder
  lastScrapedLogID :: int
  log_queries :: "int list"
  log_logged :: "string entry list"
  log_reads :: nat

definition NewLogScraper :: LogScraper where
  "NewLogScraper =
     \<lparr>log_lb = NewLogsBuilder, lastScrapedLogID = 0, log_queries = [], log_logged = [],
      log_reads = 0\<rparr>"

definition extraMap_of :: "'a log_env_scheme \<Rightarrow> string option \<Rightarrow> (string \<times> string) list" where
  "extraMap_of e extra =
     (case extra of
        None \<Rightarrow> []
      | Some str \<Rightarrow>
          if str = [] then []
          else (case json_Unmarshal e str of
                  None \<Rightarrow> []
                | Some extraData \<Rightarrow>
                    concat (map (\<lambda>(key, value).
                                   case value of JSONString strVal \<Rightarrow> [(key, strVal)]
                                               | JSONOther \<Rightarrow> [])
                              extraData)))"

text \<open>The body of the loop over the rows.\<close>

definition scrape_row :: "'a log_env_scheme \<Rightarrow> LogScraper \<Rightarrow> string + log_row \<Rightarrow> LogScraper" where
  "scrape_row e s scanned =
     (case scanned of
        Inl err \<Rightarrow>
          s\<lparr>log_logged := log_logged s @
               [Entry WarnLevel ''Failed to scan log row'' [zap_Error (Some err)]]\<rparr>
      | Inr r \<Rightarrow>
          (let extraMap = extraMap_of e (row_extra r);
               s1 = s\<lparr>log_lb := RecordEventLog (format_RFC3339 e) (now_at e (log_reads s))
                             (row_dttm r)
                             (NullString_String (row_dag_id r))
                             (NullString_String (row_task_id r))
                             (NullString_String (row_event r))
                             (NullString_String (row_owner r))
                             (NullTime_Time (row_execution_date r))
                             extraMap (log_lb s),
                      log_reads := log_reads s + 1\<rparr>
           in if row_id r > lastScrapedLogID s1
              then s1\<lparr>lastScrapedLogID := row_id r\<rparr>
              else s1))"

text \<open>\<^verbatim>\<open>Scrape\<close> returns the records of the builder made for this cycle, and an
  error.\<close>

definition LogScraper_Scrape ::
  "'a log_env_scheme \<Rightarrow> LogScraper \<Rightarrow> LogScraper \<times> LogRecord list \<times> string option"
where
  "LogScraper_Scrape e s =
     (let s1 = s\<lparr>log_lb := NewLogsBuilder,
                  log_queries := log_queries s @ [lastScrapedLogID s],
                  log_reads := log_reads s + 1\<rparr>
      in case query_logs e (log_reads s) (lastScrapedLogID s) of
           Inl err \<Rightarrow> (s1, lb_records (log_lb s1), Some (''failed to query logs: '' @ err))
         | Inr (rows, rowsErr) \<Rightarrow>
             (let s2 = foldl (scrape_row e) s1 rows
              in case rowsErr of
                   Some err \<Rightarrow>
                     (s2, lb_records (log_lb s2), Some (''error iterating log rows: '' @ err))
                 | None \<Rightarrow>
                     (let s3 = s2\<lparr>log_logged := log_logged s2 @
                                  [Entry DebugLevel ''Scraped event logs''
                                     [zap_Int ''count'' (int (length (filter (\<lambda>r. \<not> isl r) rows))),
                                      zap_Int ''last_log_id'' (lastScrapedLogID s2)]]\<rparr>
                      in (s3, lb_records (log_lb s3), None))))"

section \<open>REST fan-out adapter (\<^verbatim>\<open>RESTAPIScraper\<close>)\<close>

subsection \<open>Replies of the monitored system (\<^verbatim>\<open>internal/scraper/api_types.go\<close>)\<close>

text \<open>The records keep the fields that the adapter reads.\<close>

record Tag =
  Tag_Name :: string

record DAG =
  DAG_DAGID :: string
  DAG_IsPaused :: bool
  DAG_Tags :: "Tag list"

record DAGRun =
  DAGRun_DAGID :: string
  DAGRun_DAGRunID :: string
  DAGRun_State :: string
  DAGRun_StartDate :: Time
  DAGRun_EndDate :: Time
  DAGRun_RunType :: string
  DAGRun_ExternalTrigger :: bool

record 'f TaskInstance =
  TaskInstance_TaskID :: string
  TaskInstance_DAGID :: string
  TaskInstance_DAGRunID :: string
  TaskInstance_State :: string
  TaskInstance_Duration :: 'f
  TaskInstance_Pool :: string
  TaskInstance_Queue :: string
  TaskInstance_Operator :: string
  TaskInstance_TryNumber :: int

record Pool =
  Pool_Name :: string
  Pool_Slots :: int
  Pool_OccupiedSlots :: int
  Pool_RunningSlots :: int
  Pool_QueuedSlots :: int
  Pool_OpenSlots :: int
  Pool_DeferredSlots :: int
  Pool_ScheduledSlots :: int
  Pool_Description :: string

record HealthResponse =
  Metadatabase_Status :: string
  Scheduler_Status :: string
  Scheduler_LatestSchedulerHeartbeat :: Time

record Connection =
  Connection_ConnectionID :: string
  Connection_ConnType :: string

record Variable =
  Variable_Key :: string

record ImportError =
  ImportError_ImportErrorID :: int

text \<open>Each \<^verbatim>\<open>get...\<close> method sends one request through \<^verbatim>\<open>doRequest\<close> and decodes the JSON
  body of the reply. Its outcome (\<open>Inl\<close> is the error) is read from the environment;
  the arguments are the number of the read and the identifiers that go into the path.\<close>

record 'f rest_env = env +
  getDags_at :: "nat \<Rightarrow> string + DAG list"
  getDAGRuns_at :: "nat \<Rightarrow> string \<Rightarrow> string + DAGRun list"
  getTaskInstances_at :: "nat \<Rightarrow> string \<Rightarrow> string \<Rightarrow> string + 'f TaskInstance list"
  getPools_at :: "nat \<Rightarrow> string + Pool list"
  getHealth_at :: "nat \<Rightarrow> string + HealthResponse"
  getConnections_at :: "nat \<Rightarrow> string + Connection list"
  getVariables_at :: "nat \<Rightarrow> string + Variable list"
  getImportErrors_at :: "nat \<Rightarrow> string + ImportError list"

subsection \<open>The adapter\<close>

text \<open>The adapter: the builder and the health tracker made at construction, the log, the
  requests for sub-task records made so far (entity and run identifier), and the number
  of reads of the environment.\<close>

record 'f RESTAPIScraper =
  rest_mb :: "'f MetricsBuilder"
  rest_health :: "string ScraperHealth"
  rest_logged :: "string entry list"
  rest_fetched :: "(string \<times> string) list"
  rest_reads :: nat

definition NewRESTAPIScraper :: "'f RESTAPIScraper" where
  "NewRESTAPIScraper =
     \<lparr>rest_mb = NewMetricsBuilder, rest_health = NewScraperHealth ''rest_api'',
      rest_logged = [], rest_fetched = [], rest_reads = 0\<rparr>"

text \<open>A call \<^verbatim>\<open>s.mb.Record...(..., time.Now())\<close>: the clock is read, the metric appended.
  \<^verbatim>\<open>rest_record\<close> is a call with a timestamp at hand.\<close>

definition rest_record_now ::
  "'a env_scheme \<Rightarrow> (Time \<Rightarrow> 'f MetricsBuilder \<Rightarrow> 'f MetricsBuilder) \<Rightarrow> 'f RESTAPIScraper \<Rightarrow> 'f RESTAPIScraper"
where
  "rest_record_now e rec s =
     s\<lparr>rest_mb := rec (now_at e (rest_reads s)) (rest_mb s), rest_reads := rest_reads s + 1\<rparr>"

definition rest_record ::
  "('f MetricsBuilder \<Rightarrow> 'f MetricsBuilder) \<Rightarrow> 'f RESTAPIScraper \<Rightarrow> 'f RESTAPIScraper"
where
  "rest_record rec s = s\<lparr>rest_mb := rec (rest_mb s)\<rparr>"

definition rest_log :: "string entry \<Rightarrow> 'f RESTAPIScraper \<Rightarrow> 'f RESTAPIScraper" where
  "rest_log entry s = s\<lparr>rest_logged := rest_logged s @ [entry]\<rparr>"

text \<open>\<^verbatim>\<open>t.Sub(u)\<close>: the difference as a duration, kept within the 64-bit range.\<close>

definition Sub :: "Time \<Rightarrow> Time \<Rightarrow> Duration" where
  "Sub t u = max (- (2 ^ 63)) (min (2 ^ 63 - 1) (t - u))"

text \<open>A count map \<^verbatim>\<open>map[string]int64\<close> and its \<^verbatim>\<open>m[k]++\<close>.\<close>

definition increment :: "string \<Rightarrow> (string \<times> int) list \<Rightarrow> (string \<times> int) list" where
  "increment k m = AList.update k ((case map_of m k of None \<Rightarrow> 0 | Some n \<Rightarrow> n) + 1) m"

definition scrapeHealthMetrics :: "'f float64_ops \<Rightarrow> 'f rest_env \<Rightarrow> Time \<Rightarrow> 'f RESTAPIScraper \<Rightarrow> 'f RESTAPIScraper" where
  "scrapeHealthMetrics ops e ts s =
     (let s1 = s\<lparr>rest_reads := rest_reads s + 1\<rparr>
      in case getHealth_at e (rest_reads s) of
           Inl err \<Rightarrow> rest_log (Entry WarnLevel ''Failed to get health'' [zap_Error (Some err)]) s1
         | Inr health \<Rightarrow>
             (let s2 = rest_record_now e (RecordSchedulerHealth (Scheduler_Status health)) s1;
                  s3 = rest_record_now e (RecordDatabaseHealth (Metadatabase_Status health)) s2
              in if Scheduler_LatestSchedulerHeartbeat health \<noteq> 0 then
                   (let heartbeatAge =
                          f64_seconds ops
                            (Sub (now_at e (rest_reads s3)) (Scheduler_LatestSchedulerHeartbeat health));
                        s4 = s3\<lparr>rest_reads := rest_reads s3 + 1\<rparr>
                    in rest_record_now e (RecordSchedulerHeartbeatAge heartbeatAge) s4)
                 else s3))"

subsection \<open>\<^verbatim>\<open>scrapeDAGMetrics\<close>\<close>

text \<open>The first loop over the entities: one \<^verbatim>\<open>airflow.dag.info\<close> metric each, and the
  counts of paused and active ones.\<close>

definition record_dag ::
  "'a env_scheme \<Rightarrow> (int \<times> int) \<times> 'f RESTAPIScraper \<Rightarrow> DAG \<Rightarrow> (int \<times> int) \<times> 'f RESTAPIScraper"
where
  "record_dag e acc dag =
     (case acc of ((pausedCount, activeCount), s) \<Rightarrow>
        (let tagNames = map Tag_Name (DAG_Tags dag);
             s1 = rest_record_now e (RecordDAGWithTags 1 (DAG_DAGID dag) tagNames (DAG_IsPaused dag)) s
         in if DAG_IsPaused dag then ((pausedCount + 1, activeCount), s1)
            else ((pausedCount, activeCount + 1), s1)))"

text \<open>The first loop over the runs of an entity: the counts by state and the duration
  records.\<close>

definition count_run ::
  "'f float64_ops \<Rightarrow> Time \<Rightarrow> (string \<times> int) list \<times> 'f RESTAPIScraper \<Rightarrow> DAGRun \<Rightarrow>
   (string \<times> int) list \<times> 'f RESTAPIScraper"
where
  "count_run ops ts acc run =
     (case acc of (runsByState, s) \<Rightarrow>
        if DAGRun_DAGRunID run = [] then
          (runsByState,
           rest_log (Entry WarnLevel ''Empty dag_run_id, skipping''
                       [zap_String ''dag_id'' (DAGRun_DAGID run),
                        zap_String ''state'' (DAGRun_State run)]) s)
        else
          (let runsByState1 = increment (DAGRun_State run) runsByState
           in if (DAGRun_State run = ''success'' \<or> DAGRun_State run = ''failed'')
                 \<and> DAGRun_EndDate run \<noteq> 0 \<and> DAGRun_StartDate run \<noteq> 0
              then
                (let duration = f64_seconds ops (Sub (DAGRun_EndDate run) (DAGRun_StartDate run))
                 in if f64_less ops (f64_of_int ops 0) duration
                    then (runsByState1,
                          rest_record
                            (RecordDAGRunDurationWithDimensions duration (DAGRun_DAGID run)
                               (DAGRun_DAGRunID run) (DAGRun_RunType run) (DAGRun_State run)
                               (DAGRun_ExternalTrigger run) ts) s)
                    else (runsByState1, s))
              else (runsByState1, s)))"

text \<open>The loop over the sub-task records of a run.\<close>

definition count_task ::
  "'f float64_ops \<Rightarrow> Time \<Rightarrow> (string \<times> int) list \<times> 'f RESTAPIScraper \<Rightarrow> 'f TaskInstance \<Rightarrow>
   (string \<times> int) list \<times> 'f RESTAPIScraper"
where
  "count_task ops ts acc task =
     (case acc of (tasksByState, s) \<Rightarrow>
        (let tasksByState1 = increment (TaskInstance_State task) tasksByState
         in if f64_less ops (f64_of_int ops 0) (TaskInstance_Duration task)
               \<and> TaskInstance_TaskID task \<noteq> [] \<and> TaskInstance_DAGRunID task \<noteq> []
            then (tasksByState1,
                  rest_record
                    (RecordTaskInstanceDurationWithDimensions (TaskInstance_Duration task)
                       (TaskInstance_DAGID task) (TaskInstance_TaskID task)
                       (TaskInstance_DAGRunID task) (TaskInstance_State task)
                       (TaskInstance_Operator task) (TaskInstance_Pool task)
                       (TaskInstance_Queue task) (TaskInstance_TryNumber task) ts) s)
            else (tasksByState1, s)))"

text \<open>A \<^verbatim>\<open>range\<close> over a count map that records one metric per entry.\<close>

definition record_counts ::
  "'a env_scheme \<Rightarrow> (int \<Rightarrow> string \<Rightarrow> Time \<Rightarrow> 'f MetricsBuilder \<Rightarrow> 'f MetricsBuilder) \<Rightarrow>
   (string \<times> int) list \<Rightarrow> 'f RESTAPIScraper \<Rightarrow> 'f RESTAPIScraper"
where
  "record_counts e rec counts s =
     foldl (\<lambda>s (state, cnt). rest_record_now e (rec cnt state) s)
       (s\<lparr>rest_reads := rest_reads s + 1\<rparr>)
       (range_entries (range_at e (rest_reads s)) counts)"

text \<open>The second loop over the runs of an entity: the sub-task records of the runs that
  are running or started less than five minutes ago.\<close>

definition scrape_tasks_of_run ::
  "'f float64_ops \<Rightarrow> 'f rest_env \<Rightarrow> Time \<Rightarrow> DAG \<Rightarrow> 'f RESTAPIScraper \<Rightarrow> DAGRun \<Rightarrow> 'f RESTAPIScraper"
where
  "scrape_tasks_of_run ops e ts dag s run =
     (if DAGRun_DAGRunID run = [] then s
      else
        (let recent = (DAGRun_State run = ''running''
                        \<or> Sub (now_at e (rest_reads s)) (DAGRun_StartDate run) < 5 * Minute);
             s1 = (if DAGRun_State run = ''running'' then s
                   else s\<lparr>rest_reads := rest_reads s + 1\<rparr>)
         in if recent then
              (let s2 = s1\<lparr>rest_reads := rest_reads s1 + 1,
                          rest_fetched := rest_fetched s1 @ [(DAG_DAGID dag, DAGRun_DAGRunID run)]\<rparr>
               in case getTaskInstances_at e (rest_reads s1) (DAG_DAGID dag) (DAGRun_DAGRunID run) of
                    Inl err \<Rightarrow> s2
                  | Inr tasks \<Rightarrow>
                      (case foldl (count_task ops ts) ([], s2) tasks of
                         (tasksByState, s3) \<Rightarrow>
                           record_counts e (\<lambda>cnt state. RecordTaskInstancesByState cnt (DAG_DAGID dag) state)
                             tasksByState s3))
            else s1))"

text \<open>The second loop over the entities.\<close>

definition scrape_runs_of_dag ::
  "'f float64_ops \<Rightarrow> 'f rest_env \<Rightarrow> Time \<Rightarrow> 'f RESTAPIScraper \<Rightarrow> DAG \<Rightarrow> 'f RESTAPIScraper"
where
  "scrape_runs_of_dag ops e ts s dag =
     (let s1 = s\<lparr>rest_reads := rest_reads s + 1\<rparr>
      in case getDAGRuns_at e (rest_reads s) (DAG_DAGID dag) of
           Inl err \<Rightarrow> s1
         | Inr dagRuns \<Rightarrow>
             (case foldl (count_run ops ts) ([], s1) dagRuns of
                (runsByState, s2) \<Rightarrow>
                  (let s3 = record_counts e (\<lambda>cnt state. RecordDAGRunsByState cnt (DAG_DAGID dag) state)
                              runsByState s2
                   in foldl (scrape_tasks_of_run ops e ts dag) s3 dagRuns)))"

definition scrapeDAGMetrics :: "'f float64_ops \<Rightarrow> 'f rest_env \<Rightarrow> Time \<Rightarrow> 'f RESTAPIScraper \<Rightarrow> 'f RESTAPIScraper" where
  "scrapeDAGMetrics ops e ts s =
     (let s1 = s\<lparr>rest_reads := rest_reads s + 1\<rparr>
      in case getDags_at e (rest_reads s) of
           Inl err \<Rightarrow> rest_log (Entry ErrorLevel ''Failed to get DAGs'' [zap_Error (Some err)]) s1
         | Inr dags \<Rightarrow>
             (let s2 = rest_log (Entry InfoLevel ''Scraping comprehensive DAG metrics''
                                   [zap_Int ''dag_count'' (int (length dags))]) s1
              in case foldl (record_dag e) ((0, 0), s2) dags of
                   ((pausedCount, activeCount), s3) \<Rightarrow>
                     (let s4 = rest_record_now e (RecordDAGCount pausedCount ''paused'') s3;
                          s5 = rest_record_now e (RecordDAGCount activeCount ''active'') s4
                      in foldl (scrape_runs_of_dag ops e ts) s5 dags)))"

subsection \<open>Pools, connections, configuration\<close>

definition record_pool :: "'a env_scheme \<Rightarrow> Time \<Rightarrow> 'f RESTAPIScraper \<Rightarrow> Pool \<Rightarrow> 'f RESTAPIScraper" where
  "record_pool e ts s pool =
     (if Pool_Name pool = [] then s
      else
        (let s1 = rest_record (RecordPoolSlotsOpen (Pool_OpenSlots pool) (Pool_Name pool) ts) s;
             s2 = rest_record (RecordPoolSlotsUsed (Pool_OccupiedSlots pool) (Pool_Name pool) ts) s1;
             s3 = rest_record_now e (RecordPoolQueuedSlots (Pool_QueuedSlots pool) (Pool_Name pool)) s2;
             s4 = rest_record_now e (RecordPoolRunningSlots (Pool_RunningSlots pool) (Pool_Name pool)) s3;
             s5 = rest_record_now e (RecordPoolTotalSlots (Pool_Slots pool) (Pool_Name pool)
                                       (Pool_Description pool)) s4;
             s6 = rest_record_now e (RecordPoolDeferredSlots (Pool_DeferredSlots pool) (Pool_Name pool)) s5
         in rest_record_now e (RecordPoolScheduledSlots (Pool_ScheduledSlots pool) (Pool_Name pool)) s6))"

definition recordEnhancedPoolMetrics :: "'a env_scheme \<Rightarrow> Pool list \<Rightarrow> Time \<Rightarrow> 'f RESTAPIScraper \<Rightarrow> 'f RESTAPIScraper" where
  "recordEnhancedPoolMetrics e pools ts s = foldl (record_pool e ts) s pools"

definition scrapeConnectionMetrics :: "'f rest_env \<Rightarrow> Time \<Rightarrow> 'f RESTAPIScraper \<Rightarrow> 'f RESTAPIScraper" where
  "scrapeConnectionMetrics e ts s =
     (let s1 = s\<lparr>rest_reads := rest_reads s + 1\<rparr>
      in case getConnections_at e (rest_reads s) of
           Inl err \<Rightarrow>
             rest_log (Entry WarnLevel ''Failed to get connections'' [zap_Error (Some err)]) s1
         | Inr connections \<Rightarrow>
             (let connByType =
                    foldl (\<lambda>m conn. if Connection_ConnType conn \<noteq> []
                                     then increment (Connection_ConnType conn) m else m)
                      [] connections
              in record_counts e RecordConnectionCount connByType s1))"

definition scrapeConfigMetrics :: "'f rest_env \<Rightarrow> Time \<Rightarrow> 'f RESTAPIScraper \<Rightarrow> 'f RESTAPIScraper" where
  "scrapeConfigMetrics e ts s =
     (let s1 = s\<lparr>rest_reads := rest_reads s + 1\<rparr>;
          s2 = (case getVariables_at e (rest_reads s) of
                  Inl err \<Rightarrow> s1
                | Inr variables \<Rightarrow> rest_record_now e (RecordVariableCount (int (length variables))) s1);
          s3 = s2\<lparr>rest_reads := rest_reads s2 + 1\<rparr>
      in case getImportErrors_at e (rest_reads s2) of
           Inl err \<Rightarrow> s3
         | Inr importErrors \<Rightarrow>
             rest_record_now e (RecordImportErrorCount (int (length importErrors))) s3)"

definition scrapeComprehensive :: "'f float64_ops \<Rightarrow> 'f rest_env \<Rightarrow> Time \<Rightarrow> 'f RESTAPIScraper \<Rightarrow> 'f RESTAPIScraper" where
  "scrapeComprehensive ops e now s =
     (let ts = now;
          s1 = scrapeHealthMetrics ops e ts s;
          s2 = scrapeDAGMetrics ops e ts s1;
          s3 = s2\<lparr>rest_reads := rest_reads s2 + 1\<rparr>;
          s4 = (case getPools_at e (rest_reads s2) of
                  Inl err \<Rightarrow> s3
                | Inr pools \<Rightarrow> recordEnhancedPoolMetrics e pools ts s3);
          s5 = scrapeConnectionMetrics e ts s4
      in scrapeConfigMetrics e ts s5)"

subsection \<open>\<^verbatim>\<open>Scrape\<close>\<close>

text \<open>\<^verbatim>\<open>Scrape\<close> runs the cycle under \<^verbatim>\<open>WithScrapeTracking\<close>: the clock is read before and
  after, the outcome recorded in the health tracker and logged. The function tracked
  returns \<^verbatim>\<open>s.mb.Emit()\<close> and no error. The health metrics are then written into the
  same builder, and the handle obtained from \<^verbatim>\<open>Emit\<close> is returned.\<close>

definition RESTAPIScraper_Scrape ::
  "'f float64_ops \<Rightarrow> 'f rest_env \<Rightarrow> 'f RESTAPIScraper \<Rightarrow>
   'f RESTAPIScraper \<times> metrics_handle \<times> string option"
where
  "RESTAPIScraper_Scrape ops e s =
     (let start = now_at e (rest_reads s);
          s1 = s\<lparr>rest_reads := rest_reads s + 1\<rparr>;
          now = now_at e (rest_reads s1);
          s2 = scrapeComprehensive ops e now (s1\<lparr>rest_reads := rest_reads s1 + 1\<rparr>);
          metrics = BuilderMetrics;
          duration = Sub (now_at e (rest_reads s2)) start;
          s3 = s2\<lparr>rest_reads := rest_reads s2 + 1\<rparr>;
          s4 = s3\<lparr>rest_health := RecordScrape (now_at e (rest_reads s3)) duration None (rest_health s3),
                  rest_reads := rest_reads s3 + 1\<rparr>;
          s5 = rest_log (Entry DebugLevel ''Scrape succeeded''
                           [zap_String ''scraper_type'' (scraperType (rest_health s4)),
                            zap_Duration ''duration'' duration]) s4;
          s6 = s5\<lparr>rest_mb := EmitMetrics ops (rest_health s5) (now_at e (rest_reads s5)) (rest_mb s5),
                  rest_reads := rest_reads s5 + 1\<rparr>
      in (s6, metrics, None))"

section \<open>Database adapter (\<^verbatim>\<open>DatabaseScraper\<close> and its wrapper)\<close>

record 'f TaskInstanceStats =
  TaskInstanceStats_DAGID :: string
  TaskInstanceStats_TaskID :: string
  TaskInstanceStats_State :: string
  TaskInstanceStats_Operator :: string
  TaskInstanceStats_Pool :: string
  TaskInstanceStats_Queue :: string
  TaskInstanceStats_Count :: int
  TaskInstanceStats_AvgDuration :: 'f
  TaskInstanceStats_MaxDuration :: 'f
  TaskInstanceStats_MinDuration :: 'f

record 'f DAGRunStats =
  DAGRunStats_DAGID :: string
  DAGRunStats_State :: string
  DAGRunStats_Count :: int
  DAGRunStats_AvgDuration :: 'f
  DAGRunStats_MaxDuration :: 'f

record SchedulerMetrics =
  ScheduledTasks :: int
  QueuedTasks :: int
  RunningTasks :: int
  SuccessTasks24h :: int
  FailedTasks24h :: int
  OrphanedTasks :: int

text \<open>Each query is made through \<^verbatim>\<open>RetryWithBackoff\<close>. Its outcome after the retries is
  read from the environment: an error, or the rows that \<^verbatim>\<open>rows.Next()\<close> yields, each with
  the outcome of \<^verbatim>\<open>rows.Scan\<close>, and the error of \<^verbatim>\<open>rows.Err()\<close>. \<open>db_start_at\<close> is the error
  of \<^verbatim>\<open>Start\<close>, which opens the connection.\<close>

type_synonym 'r query_outcome = "string + ((string + 'r) list \<times> string option)"

record 'f db_env = env +
  query_task_instances_at :: "nat \<Rightarrow> 'f TaskInstanceStats query_outcome"
  query_dag_runs_at :: "nat \<Rightarrow> 'f DAGRunStats query_outcome"
  query_scheduler_metrics_at :: "nat \<Rightarrow> string + SchedulerMetrics"
  query_sla_misses_at :: "nat \<Rightarrow> (string \<times> int) query_outcome"
  db_start_at :: "nat \<Rightarrow> string option"

record 'f DatabaseScraper =
  db_mb :: "'f MetricsBuilder"
  db_logged :: "string entry list"
  db_reads :: nat

definition NewDatabaseScraper :: "'f DatabaseScraper" where
  "NewDatabaseScraper = \<lparr>db_mb = NewMetricsBuilder, db_logged = [], db_reads = 0\<rparr>"

definition db_record_now ::
  "'a env_scheme \<Rightarrow> (Time \<Rightarrow> 'f MetricsBuilder \<Rightarrow> 'f MetricsBuilder) \<Rightarrow> 'f DatabaseScraper \<Rightarrow> 'f DatabaseScraper"
where
  "db_record_now e rec s =
     s\<lparr>db_mb := rec (now_at e (db_reads s)) (db_mb s), db_reads := db_reads s + 1\<rparr>"

definition db_log :: "string entry \<Rightarrow> 'f DatabaseScraper \<Rightarrow> 'f DatabaseScraper" where
  "db_log entry s = s\<lparr>db_logged := db_logged s @ [entry]\<rparr>"

text \<open>The body of the loop over the rows of the task instance statistics; the counter
  of records goes along.\<close>

definition record_task_instance_stats ::
  "'f float64_ops \<Rightarrow> 'a env_scheme \<Rightarrow> int \<times> 'f DatabaseScraper \<Rightarrow> string + 'f TaskInstanceStats \<Rightarrow>
   int \<times> 'f DatabaseScraper"
where
  "record_task_instance_stats ops e acc scanned =
     (case acc of (n, s) \<Rightarrow>
        (case scanned of
           Inl err \<Rightarrow> (n, s)
         | Inr stats \<Rightarrow>
             (let s1 = db_record_now e
                         (RecordTaskInstanceCountDB (TaskInstanceStats_Count stats)
                            (TaskInstanceStats_DAGID stats) (TaskInstanceStats_TaskID stats)
                            (TaskInstanceStats_State stats) (TaskInstanceStats_Operator stats)
                            (TaskInstanceStats_Pool stats)) s;
                  s2 = (if f64_less ops (f64_of_int ops 0) (TaskInstanceStats_AvgDuration stats)
                        then db_record_now e
                               (RecordTaskInstanceMaxDuration (TaskInstanceStats_MaxDuration stats)
                                  (TaskInstanceStats_DAGID stats) (TaskInstanceStats_TaskID stats)
                                  (TaskInstanceStats_State stats))
                               (db_record_now e
                                  (RecordTaskInstanceAvgDuration (TaskInstanceStats_AvgDuration stats)
                                     (TaskInstanceStats_DAGID stats) (TaskInstanceStats_TaskID stats)
                                     (TaskInstanceStats_State stats)) s1)
                        else s1)
              in (n + 1, s2))))"

text \<open>The four queries return their error, \<open>None\<close> being \<^verbatim>\<open>nil\<close>.\<close>

definition scrapeTaskInstanceStats ::
  "'f float64_ops \<Rightarrow> 'f db_env \<Rightarrow> Time \<Rightarrow> 'f DatabaseScraper \<Rightarrow> 'f DatabaseScraper \<times> string option"
where
  "scrapeTaskInstanceStats ops e ts s =
     (let s1 = s\<lparr>db_reads := db_reads s + 1\<rparr>
      in case query_task_instances_at e (db_reads s) of
           Inl err \<Rightarrow> (s1, Some err)
         | Inr (rows, rowsErr) \<Rightarrow>
             (case foldl (record_task_instance_stats ops e) (0, s1) rows of
                (n, s2) \<Rightarrow>
                  (db_log (Entry InfoLevel ''Scraped task instance stats from DB''
                             [zap_Int ''records'' n]) s2,
                   rowsErr)))"

definition record_dag_run_stats ::
  "'f float64_ops \<Rightarrow> 'a env_scheme \<Rightarrow> int \<times> 'f DatabaseScraper \<Rightarrow> string + 'f DAGRunStats \<Rightarrow>
   int \<times> 'f DatabaseScraper"
where
  "record_dag_run_stats ops e acc scanned =
     (case acc of (n, s) \<Rightarrow>
        (case scanned of
           Inl err \<Rightarrow> (n, s)
         | Inr stats \<Rightarrow>
             (let s1 = db_record_now e
                         (RecordDAGRunCountDB (DAGRunStats_Count stats) (DAGRunStats_DAGID stats)
                            (DAGRunStats_State stats)) s;
                  s2 = (if f64_less ops (f64_of_int ops 0) (DAGRunStats_AvgDuration stats)
                        then db_record_now e
                               (RecordDAGRunAvgDuration (DAGRunStats_AvgDuration stats)
                                  (DAGRunStats_DAGID stats) (DAGRunStats_State stats)) s1
                        else s1)
              in (n + 1, s2))))"

definition scrapeDAGRunStats ::
  "'f float64_ops \<Rightarrow> 'f db_env \<Rightarrow> Time \<Rightarrow> 'f DatabaseScraper \<Rightarrow> 'f DatabaseScraper \<times> string option"
where
  "scrapeDAGRunStats ops e ts s =
     (let s1 = s\<lparr>db_reads := db_reads s + 1\<rparr>
      in case query_dag_runs_at e (db_reads s) of
           Inl err \<Rightarrow> (s1, Some err)
         | Inr (rows, rowsErr) \<Rightarrow>
             (case foldl (record_dag_run_stats ops e) (0, s1) rows of
                (n, s2) \<Rightarrow>
                  (db_log (Entry InfoLevel ''Scraped DAG run stats from DB''
                             [zap_Int ''records'' n]) s2,
                   rowsErr)))"

definition scrapeSchedulerMetrics ::
  "'f db_env \<Rightarrow> Time \<Rightarrow> 'f DatabaseScraper \<Rightarrow> 'f DatabaseScraper \<times> string option"
where
  "scrapeSchedulerMetrics e ts s =
     (let s1 = s\<lparr>db_reads := db_reads s + 1\<rparr>
      in case query_scheduler_metrics_at e (db_reads s) of
           Inl err \<Rightarrow> (s1, Some err)
         | Inr metrics \<Rightarrow>
             (let s2 = db_record_now e (RecordSchedulerTasksScheduled (ScheduledTasks metrics)) s1;
                  s3 = db_record_now e (RecordSchedulerTasksQueued (QueuedTasks metrics)) s2;
                  s4 = db_record_now e (RecordSchedulerTasksRunning (RunningTasks metrics)) s3;
                  s5 = db_record_now e (RecordSchedulerTasksSuccess24h (SuccessTasks24h metrics)) s4;
                  s6 = db_record_now e (RecordSchedulerTasksFailed24h (FailedTasks24h metrics)) s5;
                  s7 = db_record_now e (RecordSchedulerTasksOrphaned (OrphanedTasks metrics)) s6
              in (db_log (Entry InfoLevel ''Scraped scheduler metrics from DB''
                            [zap_Int ''queued'' (QueuedTasks metrics),
                             zap_Int ''running'' (RunningTasks metrics)]) s7,
                  None)))"

definition record_sla_miss ::
  "'a env_scheme \<Rightarrow> int \<times> 'f DatabaseScraper \<Rightarrow> string + (string \<times> int) \<Rightarrow> int \<times> 'f DatabaseScraper"
where
  "record_sla_miss e acc scanned =
     (case acc of (totalMisses, s) \<Rightarrow>
        (case scanned of
           Inl err \<Rightarrow> (totalMisses, s)
         | Inr (dagID, cnt) \<Rightarrow>
             (totalMisses + cnt, db_record_now e (RecordSLAMissCount cnt dagID) s)))"

definition scrapeSLAMisses ::
  "'f db_env \<Rightarrow> Time \<Rightarrow> 'f DatabaseScraper \<Rightarrow> 'f DatabaseScraper \<times> string option"
where
  "scrapeSLAMisses e ts s =
     (let s1 = s\<lparr>db_reads := db_reads s + 1\<rparr>
      in case query_sla_misses_at e (db_reads s) of
           Inl err \<Rightarrow> (s1, Some err)
         | Inr (rows, rowsErr) \<Rightarrow>
             (case foldl (record_sla_miss e) (0, s1) rows of
                (totalMisses, s2) \<Rightarrow>
                  ((if totalMisses > 0
                    then db_log (Entry WarnLevel ''SLA misses detected''
                                   [zap_Int ''total'' totalMisses]) s2
                    else s2),
                   rowsErr)))"

text \<open>A failed query is logged as a warning and the cycle goes on.\<close>

definition db_warn :: "string \<Rightarrow> 'f DatabaseScraper \<times> string option \<Rightarrow> 'f DatabaseScraper" where
  "db_warn msg outcome =
     (case outcome of
        (s, None) \<Rightarrow> s
      | (s, Some err) \<Rightarrow> db_log (Entry WarnLevel msg [zap_Error (Some err)]) s)"

definition DatabaseScraper_Scrape ::
  "'f float64_ops \<Rightarrow> 'f db_env \<Rightarrow> 'f DatabaseScraper \<Rightarrow>
   'f DatabaseScraper \<times> metrics_handle \<times> string option"
where
  "DatabaseScraper_Scrape ops e s =
     (let now = now_at e (db_reads s);
          s0 = s\<lparr>db_reads := db_reads s + 1\<rparr>;
          s1 = db_warn ''Failed to scrape task instance stats'' (scrapeTaskInstanceStats ops e now s0);
          s2 = db_warn ''Failed to scrape DAG run stats'' (scrapeDAGRunStats ops e now s1);
          s3 = db_warn ''Failed to scrape scheduler metrics'' (scrapeSchedulerMetrics e now s2);
          s4 = db_warn ''Failed to scrape SLA misses'' (scrapeSLAMisses e now s3)
      in (s4, BuilderMetrics, None))"

subsection \<open>The wrapper with health tracking (\<^verbatim>\<open>DatabaseScraperWrapper\<close>)\<close>

record 'f DatabaseScraperWrapper =
  wrapped :: "'f DatabaseScraper"
  wrapper_health :: "string ScraperHealth"
  once_done :: bool
  started :: bool

definition NewDatabaseScraperWrapper :: "'f DatabaseScraper \<Rightarrow> 'f DatabaseScraperWrapper" where
  "NewDatabaseScraperWrapper scraper =
     \<lparr>wrapped = scraper, wrapper_health = NewScraperHealth ''database'',
      once_done = False, started = False\<rparr>"

text \<open>The function given to \<^verbatim>\<open>once.Do\<close>: \<^verbatim>\<open>Start\<close>, and the record of its failure.\<close>

definition wrapper_start :: "'f db_env \<Rightarrow> 'f DatabaseScraperWrapper \<Rightarrow> 'f DatabaseScraperWrapper" where
  "wrapper_start e w =
     (let s = wrapped w;
          s1 = s\<lparr>db_reads := db_reads s + 1\<rparr>
      in case db_start_at e (db_reads s) of
           Some err \<Rightarrow>
             w\<lparr>wrapped := db_log (Entry ErrorLevel ''Failed to start database scraper''
                                     [zap_Error (Some err)])
                            (s1\<lparr>db_reads := db_reads s1 + 1\<rparr>),
               wrapper_health := RecordScrape (now_at e (db_reads s1)) 0 (Some err) (wrapper_health w),
               once_done := True\<rparr>
         | None \<Rightarrow> w\<lparr>wrapped := s1, once_done := True, started := True\<rparr>)"

definition DatabaseScraperWrapper_Scrape ::
  "'f float64_ops \<Rightarrow> 'f db_env \<Rightarrow> 'f DatabaseScraperWrapper \<Rightarrow>
   'f DatabaseScraperWrapper \<times> metrics_handle \<times> string option"
where
  "DatabaseScraperWrapper_Scrape ops e w =
     (let w1 = (if once_done w then w else wrapper_start e w)
      in if \<not> started w1 then (w1, NewMetrics, None)
         else
           (let s = wrapped w1;
                start = now_at e (db_reads s);
                s1 = s\<lparr>db_reads := db_reads s + 1\<rparr>
            in case DatabaseScraper_Scrape ops e s1 of
                 (s2, metrics, err) \<Rightarrow>
                   (let duration = Sub (now_at e (db_reads s2)) start;
                        s3 = s2\<lparr>db_reads := db_reads s2 + 1\<rparr>;
                        h = RecordScrape (now_at e (db_reads s3)) duration err (wrapper_health w1);
                        s4 = s3\<lparr>db_reads := db_reads s3 + 1\<rparr>;
                        s5 = db_log (case err of
                                       None \<Rightarrow> Entry DebugLevel ''Scrape succeeded''
                                                 [zap_String ''scraper_type'' (scraperType h),
                                                  zap_Duration ''duration'' duration]
                                     | Some x \<Rightarrow> Entry WarnLevel ''Scrape failed''
                                                 [zap_String ''scraper_type'' (scraperType h),
                                                  zap_Duration ''duration'' duration,
                                                  zap_Error (Some x)]) s4;
                        s6 = s5\<lparr>db_mb := EmitMetrics ops h (now_at e (db_reads s5)) (db_mb s5),
                                db_reads := db_reads s5 + 1\<rparr>
                    in (w1\<lparr>wrapped := s6, wrapper_health := h\<rparr>, metrics, err))))"

chapter \<open>Properties\<close>

section \<open>Retry executor\<close>

lemma retry_loop_done:
  "\<not> attempt < MaxAttempts cfg \<Longrightarrow>
   retry_loop conv ctx cfg operation fn attempt lastErr r =
     r\<lparr>returned := lastErr,
       logged := logged r @
         [Entry ErrorLevel ''Operation failed after all retries''
            [zap_String ''operation'' operation,
             zap_Int ''attempts'' (MaxAttempts cfg),
             zap_Error lastErr]]\<rparr>"
  by (subst retry_loop.simps) simp

lemma retry_loop_failed_step:
  assumes "attempt < MaxAttempts cfg"
      and "\<not> (attempt > 0 \<and> ctx attempt \<noteq> None)"
      and "fn (captured r) = (Some e, s')"
  shows "retry_loop conv ctx cfg operation fn attempt lastErr r =
         retry_loop conv ctx cfg operation fn (attempt + 1) (Some e)
           (after_failure operation attempt e s' (before_attempt conv cfg operation attempt r))"
  using assms
  by (subst retry_loop.simps)
     (simp add: Let_def before_attempt_def after_failure_def del: retry_loop.simps)

lemma captured_after_Suc:
  "captured_after fn (Suc i) s = captured_after fn i (snd (fn s))"
  using funpow_swap1[of "\<lambda>s. snd (fn s)" i s] by (simp add: captured_after_def)

text \<open>A run in which no wait is cancelled and every invocation made fails: the loop
  goes through all remaining attempts.\<close>

lemma retry_loop_all_fail:
  assumes nc: "\<forall>k. ctx k = None"
  shows "n = nat (MaxAttempts cfg - a) \<Longrightarrow>
         \<forall>i<n. fst (fn (captured_after fn i (captured r))) \<noteq> None \<Longrightarrow>
         trace (retry_loop conv ctx cfg operation fn a le r) =
           trace r @ concat (map (\<lambda>j. (if a + int j > 0
                                        then [Wait (backoff_of conv cfg (a + int j))] else []) @ [Invoke])
                              [0..<n])
         \<and> returned (retry_loop conv ctx cfg operation fn a le r) =
             (if n = 0 then le else fst (fn (captured_after fn (n - 1) (captured r))))
         \<and> captured (retry_loop conv ctx cfg operation fn a le r) = captured_after fn n (captured r)
         \<and> last (logged (retry_loop conv ctx cfg operation fn a le r)) =
             Entry ErrorLevel ''Operation failed after all retries''
               [zap_String ''operation'' operation,
                zap_Int ''attempts'' (MaxAttempts cfg),
                zap_Error (returned (retry_loop conv ctx cfg operation fn a le r))]"
proof (induction n arbitrary: a le r)
  case 0
  then have "\<not> a < MaxAttempts cfg" by simp
  then show ?case
    by (simp add: retry_loop_done captured_after_def del: retry_loop.simps)
next
  case (Suc n)
  then have lt: "a < MaxAttempts cfg" by simp
  obtain x s' where p: "fn (captured r) = (x, s')" by (cases "fn (captured r)")
  from Suc.prems(2) have "fst (fn (captured_after fn 0 (captured r))) \<noteq> None" by blast
  with p have "x \<noteq> None" by (simp add: captured_after_def)
  then obtain e where fn: "fn (captured r) = (Some e, s')" using p by auto
  have n: "n = nat (MaxAttempts cfg - (a + 1))" using Suc.prems by simp
  have nca: "\<not> (a > 0 \<and> ctx a \<noteq> None)" using nc by simp
  note step = retry_loop_failed_step[where ctx = ctx and fn = fn and r = r and cfg = cfg
      and attempt = a, OF lt nca fn]
  let ?r' = "after_failure operation a e s' (before_attempt conv cfg operation a r)"
  have cap: "captured ?r' = s'" by (simp add: after_failure_def)
  have fails': "\<forall>i<n. fst (fn (captured_after fn i (captured ?r'))) \<noteq> None"
  proof (intro allI impI)
    fix i assume "i < n"
    then have "fst (fn (captured_after fn (Suc i) (captured r))) \<noteq> None"
      using Suc.prems(2) by simp
    then show "fst (fn (captured_after fn i (captured ?r'))) \<noteq> None"
      by (simp add: captured_after_Suc fn cap)
  qed
  note ih = Suc.IH[OF n fails', of "Some e"]
  have tr: "trace ?r' = trace r @ (if a > 0 then [Wait (backoff_of conv cfg a)] else []) @ [Invoke]"
    by (simp add: after_failure_def before_attempt_def)
  have shift: "map (\<lambda>j. (if a + int j > 0 then [Wait (backoff_of conv cfg (a + int j))] else []) @ [Invoke])
                 [0..<Suc n]
             = ((if a > 0 then [Wait (backoff_of conv cfg a)] else []) @ [Invoke])
               # map (\<lambda>j. (if a + 1 + int j > 0
                             then [Wait (backoff_of conv cfg (a + 1 + int j))] else []) @ [Invoke])
                   [0..<n]"
  proof -
    have "[0..<Suc n] = 0 # map Suc [0..<n]"
      by (simp add: upt_conv_Cons map_Suc_upt del: upt_Suc)
    then show ?thesis by (simp add: o_def ac_simps del: upt_Suc)
  qed
  have ret0: "fst (fn (captured_after fn 0 (captured r))) = Some e"
    by (simp add: captured_after_def fn)
  have retS: "0 < n \<Longrightarrow> captured_after fn n (captured r) = captured_after fn (n - Suc 0) s'"
    by (cases n) (simp_all add: captured_after_Suc fn)
  show ?case
    unfolding step shift
    using ih
    by (simp add: tr cap ret0 retS captured_after_Suc fn del: retry_loop.simps upt_Suc)
qed

lemma backoff_of_in_range:
  assumes "- (2 ^ 63) \<le> trunc (of_int (InitialInterval cfg) * Multiplier cfg ^ j)"
      and "trunc (of_int (InitialInterval cfg) * Multiplier cfg ^ j) < 2 ^ 63"
  shows "backoff_of conv cfg (1 + int j) =
         min (trunc (of_int (InitialInterval cfg) * Multiplier cfg ^ j)) (MaxInterval cfg)"
  using assms by (simp add: backoff_of_def int64_of_float64_def Let_def min_def)

lemma failing_trace_from_start:
  assumes "1 \<le> N"
  shows "concat (map (\<lambda>j. (if 0 + int j > 0 then [Wait (f (0 + int j))] else []) @ [Invoke])
                  [0..<nat N])
         = Invoke # concat (map (\<lambda>j. [Wait (f (int (Suc j))), Invoke]) [0..<nat N - 1])"
proof -
  obtain m where m: "nat N = Suc m" using assms by (cases "nat N") auto
  have "[0..<Suc m] = 0 # map Suc [0..<m]"
    by (simp add: upt_conv_Cons map_Suc_upt del: upt_Suc)
  then show ?thesis
    by (simp add: m o_def del: upt_Suc)
qed

lemma count_list_schedule:
  "count_list (concat (map (\<lambda>j. [Wait (f j), Invoke]) xs)) Invoke = length xs"
  by (induction xs) simp_all

text \<open>
  The schedule of a run in which every invocation fails and no wait is cut short by the
  context, for a policy with \<open>MaxAttempts = N \<ge> 1\<close> whose backoff products fit the 64-bit
  duration type: \<open>N\<close> invocations, no wait before the first, and before invocation
  \<open>k \<ge> 2\<close> a wait of \<open>min (InitialInterval * Multiplier ^ (k - 2)) MaxInterval\<close>, the
  product truncated to whole nanoseconds.
\<close>

lemma RetryWithBackoff_failing_schedule:
  assumes "1 \<le> MaxAttempts cfg"
      and "\<forall>k. ctx k = None"
      and "\<forall>s. fst (fn s) \<noteq> None"
      and "\<forall>j < nat (MaxAttempts cfg) - 1.
             - (2 ^ 63) \<le> trunc (of_int (InitialInterval cfg) * Multiplier cfg ^ j)
             \<and> trunc (of_int (InitialInterval cfg) * Multiplier cfg ^ j) < 2 ^ 63"
  shows "trace (RetryWithBackoff conv ctx cfg operation fn s) =
           Invoke # concat (map (\<lambda>j. [Wait (min (trunc (of_int (InitialInterval cfg)
                                                        * Multiplier cfg ^ j))
                                                (MaxInterval cfg)),
                                        Invoke])
                              [0..<nat (MaxAttempts cfg) - 1])
         \<and> invocations (RetryWithBackoff conv ctx cfg operation fn s) = nat (MaxAttempts cfg)"
proof -
  let ?r0 = "\<lparr>returned = None, captured = s, trace = [], logged = []\<rparr> :: ('a, 'b) retry_run"
  have fails: "\<forall>i < nat (MaxAttempts cfg - 0). fst (fn (captured_after fn i (captured ?r0))) \<noteq> None"
    using assms(3) by simp
  have tr: "trace (RetryWithBackoff conv ctx cfg operation fn s) =
              Invoke # concat (map (\<lambda>j. [Wait (backoff_of conv cfg (int (Suc j))), Invoke])
                                 [0..<nat (MaxAttempts cfg) - 1])"
    using retry_loop_all_fail[OF assms(2) refl fails, of conv operation None]
          failing_trace_from_start[OF assms(1), of "backoff_of conv cfg"]
    by (simp add: RetryWithBackoff_def del: retry_loop.simps)
  have eq: "map (\<lambda>j. [Wait (backoff_of conv cfg (int (Suc j))), Invoke])
              [0..<nat (MaxAttempts cfg) - 1]
          = map (\<lambda>j. [Wait (min (trunc (of_int (InitialInterval cfg) * Multiplier cfg ^ j))
                               (MaxInterval cfg)), Invoke])
              [0..<nat (MaxAttempts cfg) - 1]"
    using assms(4) by (intro map_cong refl) (simp add: backoff_of_in_range)
  have n: "0 < nat (MaxAttempts cfg)"
    using assms(1) by simp
  show ?thesis
    unfolding tr eq invocations_def
    using n by (simp add: count_list_schedule del: upt_Suc)
qed

lemma RetryWithBackoff_failing_schedule_default:
  "trace (RetryWithBackoff (\<lambda>x. 0) (\<lambda>k. None) DefaultRetryConfig ''GET /api/v1/dags''
            (\<lambda>s :: unit. (Some ''connection refused'', s)) ())
     = [Invoke, Wait (1 * Second), Invoke, Wait (2 * Second), Invoke]
   \<and> invocations (RetryWithBackoff (\<lambda>x. 0) (\<lambda>k. None) DefaultRetryConfig ''GET /api/v1/dags''
            (\<lambda>s :: unit. (Some ''connection refused'', s)) ()) = 3"
proof -
  have a1: "1 \<le> MaxAttempts DefaultRetryConfig"
    by (simp add: DefaultRetryConfig_def)
  have a2: "\<forall>k :: int. (\<lambda>k. None :: string option) k = None" by simp
  have a3: "\<forall>s :: unit. fst ((\<lambda>s. (Some ''connection refused'', s)) s) \<noteq> None" by simp
  have a4: "\<forall>j < nat (MaxAttempts DefaultRetryConfig) - 1.
             - (2 ^ 63) \<le> trunc (of_int (InitialInterval DefaultRetryConfig)
                                 * Multiplier DefaultRetryConfig ^ j)
             \<and> trunc (of_int (InitialInterval DefaultRetryConfig)
                                 * Multiplier DefaultRetryConfig ^ j) < 2 ^ 63"
  proof (intro allI impI)
    fix j assume "j < nat (MaxAttempts DefaultRetryConfig) - 1"
    then have "j = 0 \<or> j = 1" by (auto simp: DefaultRetryConfig_def)
    then show "- (2 ^ 63) \<le> trunc (of_int (InitialInterval DefaultRetryConfig)
                                 * Multiplier DefaultRetryConfig ^ j)
             \<and> trunc (of_int (InitialInterval DefaultRetryConfig)
                                 * Multiplier DefaultRetryConfig ^ j) < 2 ^ 63"
      by (auto simp: DefaultRetryConfig_def Second_def trunc_def)
  qed
  have up: "[0..<nat (MaxAttempts DefaultRetryConfig) - 1] = [0, 1]"
    by (simp add: DefaultRetryConfig_def upt_conv_Cons)
  show ?thesis
    using RetryWithBackoff_failing_schedule[OF a1 a2 a3 a4, of "\<lambda>x. 0" "''GET /api/v1/dags''" "()"]
    unfolding up
    by (simp add: DefaultRetryConfig_def Second_def trunc_def)
qed

text \<open>
  \<^bold>\<open>C3.\<close> The cap \<^verbatim>\<open>MaxInterval\<close> is applied after the floating-point product has been
  converted to a duration, so it does not hold the wait down once the product leaves
  the 64-bit range. Under the policy of 36 attempts, one second initial interval,
  multiplier 2 and a cap of ten seconds, the product before the 36th attempt is
  \<^verbatim>\<open>10^9 * 2^34\<close> nanoseconds, more than \<^verbatim>\<open>2^63\<close>. Where the conversion of such a
  value yields the smallest 64-bit integer (as it does on amd64), the comparison with the
  cap is false and the run ends with a negative wait, that is no wait at all, before the
  last invocation. The formula \<open>min (InitialInterval * Multiplier ^ (k - 2)) MaxInterval\<close>
  gives ten seconds there.
\<close>

theorem RetryWithBackoff_backoff_overflows:
  "drop 69 (trace (RetryWithBackoff (\<lambda>x. - (2 ^ 63)) (\<lambda>k. None)
              \<lparr>MaxAttempts = 36, InitialInterval = 1 * Second, MaxInterval = 10 * Second,
               Multiplier = 2\<rparr>
              ''query task instances'' (\<lambda>s :: unit. (Some ''connection refused'', s)) ()))
     = [Wait (- 9223372036854775808), Invoke]
   \<and> min (1000000000 * 2 ^ 34) (10 * 1000000000 :: int) = 10000000000"
  by code_simp

text \<open>
  \<^bold>\<open>C9.\<close> When all \<open>MaxAttempts \<ge> 1\<close> invocations fail (and no wait is cancelled),
  \<^verbatim>\<open>RetryWithBackoff\<close> returns the error of the last invocation as it is. The operation
  name and the attempt count are attached to the error-level log record written just
  before returning, not to the returned error.
\<close>

theorem RetryWithBackoff_exhausted_returns_last_error:
  assumes "1 \<le> MaxAttempts cfg"
      and "\<forall>k. ctx k = None"
      and "\<forall>i < nat (MaxAttempts cfg). fst (fn (captured_after fn i s)) \<noteq> None"
  shows "returned (RetryWithBackoff conv ctx cfg operation fn s) =
           fst (fn (captured_after fn (nat (MaxAttempts cfg) - 1) s))
         \<and> last (logged (RetryWithBackoff conv ctx cfg operation fn s)) =
             Entry ErrorLevel ''Operation failed after all retries''
               [zap_String ''operation'' operation,
                zap_Int ''attempts'' (MaxAttempts cfg),
                zap_Error (fst (fn (captured_after fn (nat (MaxAttempts cfg) - 1) s)))]"
proof -
  let ?r0 = "\<lparr>returned = None, captured = s, trace = [], logged = []\<rparr> :: ('a, 'b) retry_run"
  have fails: "\<forall>i < nat (MaxAttempts cfg - 0). fst (fn (captured_after fn i (captured ?r0))) \<noteq> None"
    using assms(3) by simp
  have nz: "nat (MaxAttempts cfg) \<noteq> 0" using assms(1) by simp
  show ?thesis
    using retry_loop_all_fail[OF assms(2) refl fails, of conv operation None] nz
    by (simp add: RetryWithBackoff_def del: retry_loop.simps)
qed

theorem RetryWithBackoff_exhausted_returns_last_error_witness:
  "returned (RetryWithBackoff (\<lambda>x. 0) (\<lambda>k. None) DefaultRetryConfig ''GET /api/v1/pools''
      (\<lambda>k :: nat. (Some (UnexpectedStatusCode (500 + int k)), Suc k)) 0)
     = Some (UnexpectedStatusCode 502)
   \<and> last (logged (RetryWithBackoff (\<lambda>x. 0) (\<lambda>k. None) DefaultRetryConfig ''GET /api/v1/pools''
      (\<lambda>k :: nat. (Some (UnexpectedStatusCode (500 + int k)), Suc k)) 0))
     = Entry ErrorLevel ''Operation failed after all retries''
         [zap_String ''operation'' ''GET /api/v1/pools'', zap_Int ''attempts'' 3,
          zap_Error (Some (UnexpectedStatusCode 502))]"
proof -
  let ?fn = "\<lambda>k :: nat. (Some (UnexpectedStatusCode (500 + int k)), Suc k)"
  have a1: "1 \<le> MaxAttempts DefaultRetryConfig"
    by (simp add: DefaultRetryConfig_def)
  have a2: "\<forall>k :: int. (\<lambda>k. None :: http_error option) k = None" by simp
  have a3: "\<forall>i < nat (MaxAttempts DefaultRetryConfig). fst (?fn (captured_after ?fn i 0)) \<noteq> None"
    by simp
  have c: "captured_after ?fn (nat (MaxAttempts DefaultRetryConfig) - 1) 0 = 2"
    by (simp add: captured_after_def DefaultRetryConfig_def numeral_2_eq_2)
  show ?thesis
    using RetryWithBackoff_exhausted_returns_last_error[OF a1 a2 a3, of "\<lambda>x. 0" "''GET /api/v1/pools''"]
    unfolding c
    by (simp add: DefaultRetryConfig_def)
qed

text \<open>The returned error is the operation's own error value: it carries neither the
  operation name nor the number of attempts.\<close>

theorem RetryWithBackoff_error_not_annotated:
  "returned (RetryWithBackoff (\<lambda>x. 0) (\<lambda>k. None) DefaultRetryConfig ''GET /api/v1/dags''
      (\<lambda>s :: unit. (Some ''connection refused'', s)) ()) = Some ''connection refused''"
  by code_simp

text \<open>
  \<^bold>\<open>C1.\<close> An authentication failure is retried like any other error. Against an
  endpoint that answers 401 every time, \<^verbatim>\<open>doRequest\<close> under the default policy makes
  three requests and waits one and two seconds between them.
\<close>

theorem doRequest_retries_authentication_failure:
  "trace (doRequest conv (\<lambda>k. None) DefaultRetryConfig (\<lambda>k. Responds 401 [] None) ''/api/v1/dags'')
     = [Invoke, Wait 1000000000, Invoke, Wait 2000000000, Invoke]
   \<and> returned (doRequest conv (\<lambda>k. None) DefaultRetryConfig (\<lambda>k. Responds 401 [] None) ''/api/v1/dags'')
     = Some (AuthenticationFailed 401)"
  by code_simp

section \<open>Health tracker\<close>

text \<open>
  \<^bold>\<open>C4.\<close> A new tracker is healthy. A scrape recorded with an error adds one to
  \<open>consecutiveErrors\<close> and leaves the tracker healthy only if it was healthy and the
  new count is below 3; a scrape recorded without error sets \<open>consecutiveErrors\<close> to 0
  and \<open>healthy\<close> to true whatever the state was. Three failures in a row on a new
  tracker make it unhealthy, and one success afterwards makes it healthy again.
\<close>

theorem ScraperHealth_transitions:
  "healthy (NewScraperHealth ty :: 'e ScraperHealth)
   \<and> consecutiveErrors (RecordScrape now d (Some e) h) = consecutiveErrors h + 1
   \<and> healthy (RecordScrape now d (Some e) h) = (healthy h \<and> consecutiveErrors h + 1 < 3)
   \<and> consecutiveErrors (RecordScrape now d None h) = 0
   \<and> healthy (RecordScrape now d None h)
   \<and> healthy (RecordScrape t2 d2 (Some e2) (RecordScrape t1 d1 (Some e1) (NewScraperHealth ty)))
   \<and> \<not> healthy (RecordScrape t3 d3 (Some e3)
        (RecordScrape t2 d2 (Some e2) (RecordScrape t1 d1 (Some e1) (NewScraperHealth ty))))
   \<and> healthy (RecordScrape t4 d4 None (RecordScrape t3 d3 (Some e3)
        (RecordScrape t2 d2 (Some e2) (RecordScrape t1 d1 (Some e1) (NewScraperHealth ty)))))"
  by (auto simp: RecordScrape_def NewScraperHealth_def Let_def)

section \<open>StatsD aggregator\<close>

subsection \<open>Order of a map iteration\<close>

lemma mset_pick_order: "mset (pick_order cs xs) = mset xs"
proof (induction cs xs rule: pick_order.induct)
  case (1 cs)
  show ?case by simp
next
  case (2 x xs)
  show ?case by simp
next
  case (3 c cs x xs)
  let ?l = "x # xs"
  let ?i = "c mod length ?l"
  have i: "?i < length ?l" by simp
  have split: "?l = take ?i ?l @ ?l ! ?i # drop (Suc ?i) ?l"
    using id_take_nth_drop[OF i] .
  have "mset (pick_order (c # cs) ?l)
          = {#?l ! ?i#} + mset (take ?i ?l @ drop (Suc ?i) ?l)"
    using "3.IH"[OF refl] by (simp add: Let_def del: take_Suc_Cons drop_Suc_Cons nth_Cons_Suc)
  also have "\<dots> = mset (take ?i ?l @ ?l ! ?i # drop (Suc ?i) ?l)"
    by simp
  also have "\<dots> = mset ?l" using split by simp
  finally show ?case .
qed

lemma mset_concat_map_cong:
  "mset xs = mset ys \<Longrightarrow> mset (concat (map f xs)) = mset (concat (map f ys))"
proof -
  assume eq: "mset xs = mset ys"
  have "\<And>zs. mset (concat (map f zs)) = (\<Sum>z\<in>#mset zs. mset (f z))"
  proof -
    fix zs show "mset (concat (map f zs)) = (\<Sum>z\<in>#mset zs. mset (f z))"
      by (induction zs) simp_all
  qed
  then show ?thesis using eq by simp
qed

lemma mset_range_entries:
  "mset (range_entries c1 m) = mset (range_entries c2 m)"
  by (simp add: range_entries_def mset_pick_order)

lemma set_pick_order: "set (pick_order cs xs) = set xs"
  using mset_pick_order[of cs xs] by (metis set_mset_mset)

lemma map_of_keyed: "map_of (map (\<lambda>k. (k, f k)) ks) = (\<lambda>k. if k \<in> set ks then Some (f k) else None)"
  by (induction ks) auto

text \<open>The attributes copied from a tag map are the same map whatever the order of the
  iteration.\<close>

lemma map_of_tag_attributes:
  "map_of (tag_attributes choice tags) = map_of (tag_attributes [] tags)"
proof -
  have "\<And>c. tag_attributes c tags
          = map (\<lambda>k. (k, AttrStr (the (map_of tags k)))) (pick_order c (remdups (map fst tags)))"
    by (simp add: tag_attributes_def range_entries_def)
  then show ?thesis by (simp add: map_of_keyed set_pick_order)
qed

subsection \<open>What \<^verbatim>\<open>Scrape\<close> records\<close>

lemma record_cell_frame:
  "statsd_metrics (record_cell e ops s metric) = statsd_metrics s"
  by (simp add: record_cell_def Let_def)

lemma record_cell_appends:
  "\<exists>new. mb_metrics (statsd_mb (record_cell e ops s metric)) = mb_metrics (statsd_mb s) @ new
         \<and> map reported new = cell_report ops metric"
proof -
  have attrs: "\<And>c. map_of (tag_attributes c (Tags metric)) = map_of (tag_attributes [] (Tags metric))"
    by (rule map_of_tag_attributes)
  consider (c) "Type metric = ''c''" | (g) "Type metric = ''g''"
    | (t) "Type metric \<noteq> ''c''" "Type metric \<noteq> ''g''" "Type metric = ''ms'' \<or> Type metric = ''h''"
          "Count metric > 0"
    | (n) "Type metric \<noteq> ''c''" "Type metric \<noteq> ''g''"
          "\<not> ((Type metric = ''ms'' \<or> Type metric = ''h'') \<and> Count metric > 0)"
    by blast
  then show ?thesis
  proof cases
    case c
    then show ?thesis
      using attrs[of "range_at e (statsd_reads s + 1)"]
      by (simp add: record_cell_def cell_report_def Let_def NewStatsDScraper_def reported_def
            RecordGenericCounter_def AppendMetric_def)
  next
    case g
    then show ?thesis
      using attrs[of "range_at e (statsd_reads s + 1)"]
      by (simp add: record_cell_def cell_report_def Let_def NewStatsDScraper_def reported_def
            RecordGenericGauge_def AppendMetric_def)
  next
    case t
    then show ?thesis
      using attrs[of "range_at e (statsd_reads s + 1)"] attrs[of "range_at e (statsd_reads s + 2)"]
            attrs[of "range_at e (statsd_reads s + 3)"]
      by (auto simp: record_cell_def cell_report_def Let_def NewStatsDScraper_def reported_def
            RecordGenericTimer_def AppendMetric_def)
  next
    case n
    then show ?thesis
      by (auto simp: record_cell_def cell_report_def Let_def NewStatsDScraper_def)
  qed
qed

lemma record_cells_frame:
  "statsd_metrics (foldl (record_cell e ops) s cells) = statsd_metrics s"
  by (induction cells arbitrary: s) (simp_all add: record_cell_frame)

lemma record_cells_append:
  "\<exists>new. mb_metrics (statsd_mb (foldl (record_cell e ops) s cells)) = mb_metrics (statsd_mb s) @ new
         \<and> map reported new = concat (map (cell_report ops) cells)"
proof (induction cells arbitrary: s)
  case Nil
  show ?case by simp
next
  case (Cons c cells)
  obtain first where first:
    "mb_metrics (statsd_mb (record_cell e ops s c)) = mb_metrics (statsd_mb s) @ first"
    "map reported first = cell_report ops c"
    using record_cell_appends[of e ops s c] by blast
  obtain new where new:
    "mb_metrics (statsd_mb (foldl (record_cell e ops) (record_cell e ops s c) cells))
       = mb_metrics (statsd_mb (record_cell e ops s c)) @ new"
    "map reported new = concat (map (cell_report ops) cells)"
    using Cons.IH[of "record_cell e ops s c"] by blast
  have "mb_metrics (statsd_mb (foldl (record_cell e ops) s (c # cells)))
          = mb_metrics (statsd_mb s) @ (first @ new)"
    using new(1) first(1) by simp
  moreover have "map reported (first @ new) = concat (map (cell_report ops) (c # cells))"
    using new(2) first(2) by simp
  ultimately show ?case by blast
qed

text \<open>A call of \<^verbatim>\<open>Scrape\<close> leaves the table as it is and appends to the builder, for the
  cells in the order of the iteration, the metrics of each.\<close>

lemma Scrape_frame:
  "statsd_metrics (StatsDScraper_after_Scrape e ops s) = statsd_metrics s"
  by (simp add: StatsDScraper_after_Scrape_def StatsDScraper_Scrape_def Let_def record_cells_frame)

lemma Scrape_emitted:
  "\<exists>new. StatsDScraper_emitted e ops s = mb_metrics (statsd_mb s) @ new
         \<and> mb_metrics (statsd_mb (StatsDScraper_after_Scrape e ops s)) = mb_metrics (statsd_mb s) @ new
         \<and> mset (map reported new)
             = mset (concat (map (cell_report ops) (map snd (range_entries [] (statsd_metrics s)))))"
proof -
  let ?s1 = "s\<lparr>statsd_reads := statsd_reads s + 1\<rparr>"
  let ?cells = "map snd (range_entries (range_at e (statsd_reads s)) (statsd_metrics s))"
  obtain new where new:
    "mb_metrics (statsd_mb (foldl (record_cell e ops) ?s1 ?cells)) = mb_metrics (statsd_mb ?s1) @ new"
    "map reported new = concat (map (cell_report ops) ?cells)"
    using record_cells_append[of e ops ?s1 ?cells] by blast
  have perm: "mset ?cells = mset (map snd (range_entries [] (statsd_metrics s)))"
    using mset_range_entries[of "range_at e (statsd_reads s)" "statsd_metrics s" "[]"]
    by (metis mset_map)
  have "mset (map reported new)
          = mset (concat (map (cell_report ops) (map snd (range_entries [] (statsd_metrics s)))))"
    unfolding new(2) by (rule mset_concat_map_cong[OF perm])
  moreover have "StatsDScraper_emitted e ops s = mb_metrics (statsd_mb s) @ new"
    using new(1)
    by (simp add: StatsDScraper_emitted_def StatsDScraper_Scrape_def Let_def collected_def Emit_def)
  moreover have "mb_metrics (statsd_mb (StatsDScraper_after_Scrape e ops s)) = mb_metrics (statsd_mb s) @ new"
    using new(1)
    by (simp add: StatsDScraper_after_Scrape_def StatsDScraper_Scrape_def Let_def)
  ultimately show ?thesis by blast
qed

text \<open>
  \<^bold>\<open>C7.\<close> A call of \<^verbatim>\<open>Scrape\<close> does not change the aggregation table. When \<^verbatim>\<open>Scrape\<close> is
  called twice with nothing aggregated in between, whatever the clock and the order of
  the map iterations in the two calls, what the second call records is what the first
  recorded: the same reports (name, unit, description, kind of data, value and
  attributes of a metric), each as many times. The two emissions hold the same reports;
  the second emission holds the metrics of the first and, once more, the metrics of
  every cell.
\<close>

theorem StatsDScraper_Scrape_twice:
  "statsd_metrics (StatsDScraper_after_Scrape e ops s) = statsd_metrics s
   \<and> mset (map reported
        (drop (length (StatsDScraper_emitted e ops s))
           (StatsDScraper_emitted e' ops (StatsDScraper_after_Scrape e ops s))))
     = mset (map reported
        (drop (length (mb_metrics (statsd_mb s))) (StatsDScraper_emitted e ops s)))
   \<and> set (map reported (StatsDScraper_emitted e' ops (StatsDScraper_after_Scrape e ops s)))
     = set (map reported (StatsDScraper_emitted e ops s))
   \<and> take (length (StatsDScraper_emitted e ops s))
        (StatsDScraper_emitted e' ops (StatsDScraper_after_Scrape e ops s))
     = StatsDScraper_emitted e ops s"
proof -
  let ?s1 = "StatsDScraper_after_Scrape e ops s"
  obtain new1 where n1:
    "StatsDScraper_emitted e ops s = mb_metrics (statsd_mb s) @ new1"
    "mb_metrics (statsd_mb ?s1) = mb_metrics (statsd_mb s) @ new1"
    "mset (map reported new1)
       = mset (concat (map (cell_report ops) (map snd (range_entries [] (statsd_metrics s)))))"
    using Scrape_emitted[of e ops s] by blast
  obtain new2 where n2:
    "StatsDScraper_emitted e' ops ?s1 = mb_metrics (statsd_mb ?s1) @ new2"
    "mset (map reported new2)
       = mset (concat (map (cell_report ops) (map snd (range_entries [] (statsd_metrics ?s1)))))"
    using Scrape_emitted[of e' ops ?s1] by blast
  have same: "mset (map reported new2) = mset (map reported new1)"
    using n1(3) n2(2) by (simp add: Scrape_frame)
  have e2: "StatsDScraper_emitted e' ops ?s1 = StatsDScraper_emitted e ops s @ new2"
    using n1 n2(1) by simp
  have sets: "set (map reported new2) = set (map reported new1)"
    using same by (metis set_mset_mset)
  have "set (map reported (StatsDScraper_emitted e' ops ?s1))
          = set (map reported (StatsDScraper_emitted e ops s))"
    unfolding e2 using sets n1(1) by auto
  then show ?thesis
    using same by (simp add: Scrape_frame e2 n1(1))
qed

subsection \<open>Lines that do not parse\<close>

lemma aggregate_line_malformed:
  "parseStatsDLine ops line = None \<Longrightarrow> aggregate_line e ops s line = s"
  by (simp add: aggregate_line_def)

lemma malformed_line_dropped:
  "parseStatsDLine ops bad = None \<Longrightarrow>
   foldl (aggregate_line e ops) s (before @ [bad] @ after)
     = foldl (aggregate_line e ops) s (before @ after)"
  by (simp add: aggregate_line_malformed)

text \<open>The counters and timers of two lines without tags, and a datagram with a line
  that does not parse between two that do.\<close>

lemma counters_without_tags:
  "map (\<lambda>(key, cell). (key, Type cell, Value cell))
     (statsd_metrics (parseAndAggregate e exact_float64 ''requests:3|c''
        (parseAndAggregate e exact_float64 ''requests:5|c'' NewStatsDScraper)))
     = [(''requests'', ''c'', 8)]"
  by code_simp

lemma timers_without_tags:
  "map (\<lambda>(key, cell). (key, Count cell, Sum cell, MinValue cell, MaxValue cell))
     (statsd_metrics (parseAndAggregate e exact_float64
        (''latency:10|ms'' @ [CHR 0x0A] @ ''bad_line'' @ [CHR 0x0A] @ ''latency:30|ms'')
        NewStatsDScraper))
     = [(''latency'', 2, 40, 10, 30)]"
  by code_simp

text \<open>
  \<^bold>\<open>C2.\<close> The first counter line of a cell stores its value as it is: the sample rate of
  the line is not applied. A first line \<^verbatim>\<open>requests:5|c|@0.5\<close> leaves the cell at 5, where
  \<open>value / sampleRate\<close> is 10; the same line once more adds 10, as the rule says.
\<close>

theorem aggregate_first_counter_not_scaled:
  "map (\<lambda>(key, cell). (key, Type cell, Value cell))
     (statsd_metrics (parseAndAggregate e exact_float64 ''requests:5|c|@0.5'' NewStatsDScraper))
     = [(''requests'', ''c'', 5)]
   \<and> map (\<lambda>(key, cell). (key, Type cell, Value cell))
     (statsd_metrics (parseAndAggregate e exact_float64 ''requests:5|c|@0.5''
        (parseAndAggregate e exact_float64 ''requests:5|c|@0.5'' NewStatsDScraper)))
     = [(''requests'', ''c'', 15)]
   \<and> (5 :: rat) / (1 / 2) = 10"
  by code_simp

text \<open>
  \<^bold>\<open>C8.\<close> The key of a cell lists the tags in the order in which the \<^verbatim>\<open>range\<close> over the tag
  map visits them, and that order is not fixed. Two timer lines with the same name and
  the same two tags, the tags visited as \<open>a, b\<close> for the first line and as \<open>b, a\<close> for the
  second, go to two cells of one observation each.
\<close>

theorem aggregate_same_tags_two_cells:
  "map (\<lambda>(key, cell). (key, Count cell, Sum cell, MinValue cell, MaxValue cell))
     (statsd_metrics (parseAndAggregate
        \<lparr>now_at = (\<lambda>k. 0), range_at = (\<lambda>k. if k = 0 then [0] else [1])\<rparr> exact_float64
        (''latency:10|ms|#a:1,b:2'' @ [CHR 0x0A] @ ''latency:30|ms|#a:1,b:2'')
        NewStatsDScraper))
     = [(''latency,a=1,b=2'', 1, 10, 10, 10), (''latency,b=2,a=1'', 1, 30, 30, 30)]"
  by code_simp


end
